theory Spec2Isabelle
  imports Main "HOL-Library.Sublist"
begin

section \<open>JavaScript primitives the service relies on\<close>

text \<open>
  Strings are lists of 8-bit characters. An environment variable, a header, a query
  parameter or a token claim that is \<^verbatim>\<open>undefined\<close> in JavaScript is \<open>None\<close>.
\<close>

definition startsWith :: "string \<Rightarrow> string \<Rightarrow> bool" where
  "startsWith s p = (take (length p) s = p)"

fun str_includes :: "string \<Rightarrow> string \<Rightarrow> bool" where
  "str_includes [] sub = (sub = [])"
| "str_includes (c # cs) sub = (startsWith (c # cs) sub \<or> str_includes cs sub)"

text \<open>\<^verbatim>\<open>s.split(sep)\<close> for a one-character separator: the pieces between separators,
  empty pieces kept.\<close>

fun split_js :: "char \<Rightarrow> string \<Rightarrow> string list" where
  "split_js sep [] = [[]]"
| "split_js sep (c # cs) =
     (if c = sep then [] # split_js sep cs
      else (case split_js sep cs of
              [] \<Rightarrow> [[c]]
            | p # ps \<Rightarrow> (c # p) # ps))"

text \<open>The white space and line terminators of ECMAScript that fit in eight bits.\<close>

definition isJsSpace :: "char \<Rightarrow> bool" where
  "isJsSpace c = (of_char c \<in> {9, 10, 11, 12, 13, 32, 160 :: nat})"

definition trim :: "string \<Rightarrow> string" where
  "trim s = rev (dropWhile isJsSpace (rev (dropWhile isJsSpace s)))"

text \<open>Truthiness of an optional string: \<^verbatim>\<open>undefined\<close> and \<^verbatim>\<open>''\<close> are falsy.\<close>

definition truthy :: "string option \<Rightarrow> bool" where
  "truthy v = (case v of None \<Rightarrow> False | Some s \<Rightarrow> s \<noteq> [])"

text \<open>\<^verbatim>\<open>a || b\<close> on optional strings.\<close>

definition or_else :: "string option \<Rightarrow> string option \<Rightarrow> string option" where
  "or_else a b = (if truthy a then a else b)"

text \<open>A value interpolated into a template literal.\<close>

definition tmpl :: "string option \<Rightarrow> string" where
  "tmpl v = (case v of None \<Rightarrow> ''undefined'' | Some s \<Rightarrow> s)"

section \<open>Token claims, identity context, requests and responses\<close>

text \<open>\<^verbatim>\<open>process.env\<close>, as far as the middleware reads it.\<close>

record env =
  KEYCLOAK_URL :: "string option"
  KEYCLOAK_REALM :: "string option"
  KEYCLOAK_CLIENT_ID :: "string option"
  JWT_ALGORITHM :: "string option"

text \<open>An object with an optional \<^verbatim>\<open>roles\<close> array (\<^verbatim>\<open>realm_access\<close>, and each entry of
  \<^verbatim>\<open>resource_access\<close>).\<close>

datatype access = Access (roles_of: "string list option")

text \<open>The decoded payload of a token.\<close>

record claims =
  sub :: "string option"
  c_email :: "string option"
  preferred_username :: "string option"
  c_username :: "string option"
  given_name :: "string option"
  family_name :: "string option"
  email_verified :: "bool option"
  realm_access :: "access option"
  resource_access :: "(string \<times> access) list option"

text \<open>\<^verbatim>\<open>req.user\<close>, as \<^verbatim>\<open>attachUserInfo\<close> builds it.\<close>

record identity =
  i_keycloakId :: "string option"
  i_email :: "string option"
  i_username :: "string option"
  i_firstName :: "string option"
  i_lastName :: "string option"
  i_emailVerified :: "bool option"
  i_roles :: "string list"
  i_clientRoles :: "string list"
  i_token :: claims

text \<open>The error object \<^verbatim>\<open>jwt.verify\<close> hands to its callback.\<close>

record jwt_error =
  err_name :: string
  err_message :: string

record verify_options =
  algorithms :: "string list"
  issuer :: string
  audience :: "string option"

text \<open>
  \<^verbatim>\<open>jwt.verify(token, getKey, options, callback)\<close> belongs to the jsonwebtoken package,
  and \<^verbatim>\<open>getKey\<close> to the JWKS client; neither is code of this repository. The verifier is
  therefore a parameter of the model. It calls back with an error, calls back with the
  decoded claims, or throws (the key callback throws when the JWKS address is not
  configured).
\<close>

datatype verify_result = Threw | Failed jwt_error | Decoded claims

type_synonym verifier = "string \<Rightarrow> verify_options \<Rightarrow> verify_result"

text \<open>A value of the request body: a JSON string, or a JSON object whose members are kept
  as strings.\<close>

datatype bval = BStr string | BObj "(string \<times> string) list"

record request =
  authorization :: "string option"
  param_id :: string
  query_page :: "string option"
  query_limit :: "string option"
  body :: "(string \<times> bval) list"
  req_user :: "identity option"

section \<open>The user collection\<close>

type_synonym date = nat

text \<open>
  A document of the \<^verbatim>\<open>users\<close> collection, field by field as \<^verbatim>\<open>userSchema\<close> declares it
  (\<open>u_id\<close> is \<^verbatim>\<open>_id\<close>; \<open>createdAt\<close> and \<open>updatedAt\<close> come from the schema option
  \<^verbatim>\<open>timestamps: true\<close>). A path that a document does not hold is \<open>None\<close>.
\<close>

record user_doc =
  u_id :: string
  keycloakId :: "string option"
  email :: "string option"
  username :: "string option"
  firstName :: "string option"
  lastName :: "string option"
  enabled :: bool
  emailVerified :: bool
  profilePicture :: "string option"
  phoneNumber :: "string option"
  lastLogin :: "date option"
  preferences :: "(string \<times> string) list"
  createdAt :: date
  updatedAt :: date

text \<open>
  What a request reads from outside the program: the clock of the application
  (\<^verbatim>\<open>new Date()\<close> in the service and the controllers), the clock Mongoose reads when it
  stamps a write, the \<^verbatim>\<open>_id\<close> the driver generates for an inserted document, and whether
  the connection is in ready state 1.
\<close>

record io =
  now :: date
  stamp :: date
  fresh_id :: string
  db_ready :: bool

subsection \<open>Schema setters\<close>

definition lower_char :: "char \<Rightarrow> char" where
  "lower_char c =
     (let n = (of_char c :: nat)
      in if (65 \<le> n \<and> n \<le> 90) \<or> (192 \<le> n \<and> n \<le> 222 \<and> n \<noteq> 215)
         then char_of (n + 32) else c)"

definition toLowerCase :: "string \<Rightarrow> string" where
  "toLowerCase s = map lower_char s"

text \<open>A key of \<^verbatim>\<open>$set\<close> whose value is \<^verbatim>\<open>undefined\<close> is dropped from the update, so the
  stored value stays; otherwise the schema's setter is applied and the result stored.\<close>

definition set_path :: "(string \<Rightarrow> string) \<Rightarrow> string option \<Rightarrow> string option \<Rightarrow> string option" where
  "set_path setter new old = (case new of None \<Rightarrow> old | Some v \<Rightarrow> Some (setter v))"

subsection \<open>Queries\<close>

text \<open>The filter \<^verbatim>\<open>{ keycloakId }\<close>: the documents whose \<^verbatim>\<open>keycloakId\<close> is the given one.
  A value that is \<^verbatim>\<open>undefined\<close> goes to the server as \<^verbatim>\<open>null\<close>, which matches exactly
  the documents that hold no \<^verbatim>\<open>keycloakId\<close>.\<close>

definition by_keycloakId :: "string option \<Rightarrow> user_doc \<Rightarrow> bool" where
  "by_keycloakId k d = (keycloakId d = k)"

fun update_first :: "(user_doc \<Rightarrow> bool) \<Rightarrow> (user_doc \<Rightarrow> user_doc) \<Rightarrow> user_doc list \<Rightarrow> user_doc list" where
  "update_first p f [] = []"
| "update_first p f (d # ds) = (if p d then f d # ds else d # update_first p f ds)"

definition touch :: "date \<Rightarrow> user_doc \<Rightarrow> user_doc" where
  "touch t d = d\<lparr>updatedAt := t\<rparr>"

text \<open>
  \<^verbatim>\<open>User.findOneAndUpdate(filter, { $set: ... }, { new: true })\<close>: the first document that
  matches is updated in place, \<^verbatim>\<open>updatedAt\<close> is stamped with it (schema timestamps), and
  the updated document is returned; \<^verbatim>\<open>null\<close> when nothing matches.
\<close>

definition findOneAndUpdate ::
  "(user_doc \<Rightarrow> bool) \<Rightarrow> (user_doc \<Rightarrow> user_doc) \<Rightarrow> date \<Rightarrow> user_doc list
     \<Rightarrow> user_doc option \<times> user_doc list" where
  "findOneAndUpdate p f t docs =
     (case find p docs of
        None \<Rightarrow> (None, docs)
      | Some d \<Rightarrow> (Some (touch t (f d)), update_first p (touch t \<circ> f) docs))"

text \<open>The document an upsert inserts before \<^verbatim>\<open>$set\<close> is applied: the filter's equality
  field, the schema defaults (\<^verbatim>\<open>setDefaultsOnInsert\<close>) and both timestamps.\<close>

definition inserted_doc :: "io \<Rightarrow> string option \<Rightarrow> user_doc" where
  "inserted_doc w k =
     \<lparr>u_id = fresh_id w, keycloakId = k, email = None, username = None,
      firstName = None, lastName = None, enabled = True, emailVerified = False,
      profilePicture = None, phoneNumber = None, lastLogin = None, preferences = [],
      createdAt = stamp w, updatedAt = stamp w\<rparr>"

text \<open>The same call with \<^verbatim>\<open>upsert: true\<close>: when nothing matches, a document is inserted.\<close>

definition findOneAndUpsert ::
  "string option \<Rightarrow> (user_doc \<Rightarrow> user_doc) \<Rightarrow> io \<Rightarrow> user_doc list \<Rightarrow> user_doc \<times> user_doc list" where
  "findOneAndUpsert k f w docs =
     (case findOneAndUpdate (by_keycloakId k) f (stamp w) docs of
        (Some d, docs') \<Rightarrow> (d, docs')
      | (None, _) \<Rightarrow> (let d = f (inserted_doc w k) in (d, docs @ [d])))"

section \<open>The user service\<close>

text \<open>The argument of \<^verbatim>\<open>syncUserFromKeycloak\<close>.\<close>

record userData =
  d_keycloakId :: "string option"
  d_email :: "string option"
  d_username :: "string option"
  d_firstName :: "string option"
  d_lastName :: "string option"
  d_emailVerified :: "bool option"
  d_enabled :: "bool option"

text \<open>The \<^verbatim>\<open>$set\<close> of \<^verbatim>\<open>syncUserFromKeycloak\<close>, with the setters of the schema
  (\<^verbatim>\<open>email\<close>: trim and lowercase; the names: trim).\<close>

definition sync_set :: "date \<Rightarrow> userData \<Rightarrow> user_doc \<Rightarrow> user_doc" where
  "sync_set t ud d =
     d\<lparr>email := set_path (toLowerCase \<circ> trim) (d_email ud) (email d),
       username := set_path trim (d_username ud) (username d),
       firstName := set_path trim (d_firstName ud) (firstName d),
       lastName := set_path trim (d_lastName ud) (lastName d),
       enabled := (d_enabled ud \<noteq> Some False),
       emailVerified := (d_emailVerified ud = Some True),
       lastLogin := Some t\<rparr>"

definition syncUserFromKeycloak :: "io \<Rightarrow> userData \<Rightarrow> user_doc list \<Rightarrow> user_doc \<times> user_doc list" where
  "syncUserFromKeycloak w ud docs =
     findOneAndUpsert (d_keycloakId ud) (sync_set (now w) ud) w docs"

text \<open>
  Every service function wraps its body in \<^verbatim>\<open>try\<close> and rethrows whatever it caught as
  \<^verbatim>\<open>new Error(pre + error.message)\<close>. An error is the \<open>Inl\<close> of its message. The model
  has no failure of the data store itself: every query is answered.
\<close>

definition rethrow :: "string \<Rightarrow> string + 'a \<Rightarrow> string + 'a" where
  "rethrow pre r = (case r of Inl m \<Rightarrow> Inl (pre @ m) | Inr x \<Rightarrow> Inr x)"

definition isHexDigit :: "char \<Rightarrow> bool" where
  "isHexDigit c =
     (let n = (of_char c :: nat)
      in (48 \<le> n \<and> n \<le> 57) \<or> (65 \<le> n \<and> n \<le> 70) \<or> (97 \<le> n \<and> n \<le> 102))"

text \<open>\<^verbatim>\<open>mongoose.Types.ObjectId.isValid\<close> on a string, as the current driver decides it:
  24 hexadecimal digits, in either case. \<^verbatim>\<open>findById\<close> casts such a string to the id it
  denotes; a stored \<^verbatim>\<open>_id\<close> is kept here as the driver prints it, in lower case.\<close>

definition isValidObjectId :: "string \<Rightarrow> bool" where
  "isValidObjectId s = (length s = 24 \<and> list_all isHexDigit s)"

definition getUserById :: "string \<Rightarrow> user_doc list \<Rightarrow> string + user_doc" where
  "getUserById userId docs =
     rethrow ''Failed to get user: ''
       (if \<not> isValidObjectId userId then Inl ''Invalid user ID format''
        else (case find (\<lambda>d. u_id d = toLowerCase userId) docs of
                None \<Rightarrow> Inl ''User not found''
              | Some user \<Rightarrow> Inr user))"

record pagination =
  p_page :: int
  p_limit :: int
  p_total :: nat
  p_pages :: "int option"

text \<open>
  \<^verbatim>\<open>getAllUsers(page, limit)\<close>. The query sorts by \<^verbatim>\<open>createdAt\<close>, newest first, then
  skips and limits; the server fixes no order among documents created at the same time,
  and here the one inserted last comes first. The server refuses a negative skip; the driver sends a negative limit
  as its absolute value, and limit 0 means no limit. \<^verbatim>\<open>Math.ceil(total / limit)\<close> is not a
  finite number when the limit is 0 (\<open>None\<close>).
\<close>

definition getAllUsers :: "int \<Rightarrow> int \<Rightarrow> user_doc list \<Rightarrow> string + (user_doc list \<times> pagination)" where
  "getAllUsers page limit docs =
     rethrow ''Failed to get users: ''
       (let skip = (page - 1) * limit
        in if skip < 0 then Inl ''skip value must be non-negative''
           else Inr ((if limit = 0 then (\<lambda>xs. xs) else take (nat \<bar>limit\<bar>))
                       (drop (nat skip) (rev (sort_key createdAt docs))),
                     \<lparr>p_page = page, p_limit = limit, p_total = length docs,
                      p_pages = (if limit = 0 then None
                                 else Some (- ((- int (length docs)) div limit)))\<rparr>))"

definition allowedFields :: "string list" where
  "allowedFields = [''firstName'', ''lastName'', ''phoneNumber'', ''profilePicture'', ''preferences'']"

definition updateFields_of :: "(string \<times> bval) list \<Rightarrow> (string \<times> bval) list" where
  "updateFields_of updateData = filter (\<lambda>(key, v). key \<in> set allowedFields) updateData"

text \<open>
  \<^verbatim>\<open>{ $set: updateFields }\<close> writes every path of the schema it is given. Mongoose casts
  each value to the type of its path before it queries: a string path takes a string and
  applies the setters of the schema, a boolean path takes one of the strings Mongoose
  reads as true or false, a date path takes the empty string as \<^verbatim>\<open>null\<close> and any other
  string through the date parser (the parameter \<open>parse\<close>: \<open>None\<close> is an invalid date), the
  \<^verbatim>\<open>preferences\<close> map takes an object; anything else is a cast error. With
  \<^verbatim>\<open>runValidators: true\<close> a required string path refuses the empty string. Of several
  errors the first in the order of the keys is the one reported.
\<close>

definition cast_string :: "string \<Rightarrow> bval \<Rightarrow> string + string" where
  "cast_string path v =
     (case v of BStr s \<Rightarrow> Inr s | BObj m \<Rightarrow> Inl (''Cast to string failed at path '' @ path))"

definition cast_required :: "string \<Rightarrow> (string \<Rightarrow> string) \<Rightarrow> bval \<Rightarrow> string + string" where
  "cast_required path setter v =
     (case cast_string path v of
        Inl e \<Rightarrow> Inl e
      | Inr s \<Rightarrow>
          if setter s = [] then Inl (''Validation failed: path is required: '' @ path)
          else Inr (setter s))"

definition castBoolean :: "string \<Rightarrow> bval \<Rightarrow> string + bool" where
  "castBoolean path v =
     (case v of
        BStr s \<Rightarrow>
          if s = ''true'' \<or> s = ''1'' \<or> s = ''yes'' then Inr True
          else if s = ''false'' \<or> s = ''0'' \<or> s = ''no'' then Inr False
          else Inl (''Cast to Boolean failed at path '' @ path)
      | BObj m \<Rightarrow> Inl (''Cast to Boolean failed at path '' @ path))"

definition castDate :: "(string \<Rightarrow> date option) \<Rightarrow> string \<Rightarrow> bval \<Rightarrow> string + date option" where
  "castDate parse path v =
     (case v of
        BStr s \<Rightarrow>
          if s = [] then Inr None
          else (case parse s of
                  None \<Rightarrow> Inl (''Cast to date failed at path '' @ path)
                | Some t \<Rightarrow> Inr (Some t))
      | BObj m \<Rightarrow> Inl (''Cast to date failed at path '' @ path))"

text \<open>
  One member of \<^verbatim>\<open>$set\<close>, as the write it makes. The last case: \<^verbatim>\<open>createdAt\<close> and
  \<^verbatim>\<open>updatedAt\<close> belong to the timestamps of the schema, which take a \<^verbatim>\<open>$set\<close> on them out
  of the update and stamp \<^verbatim>\<open>updatedAt\<close> themselves; no write changes \<^verbatim>\<open>_id\<close>; and a key
  that is no path of the schema is dropped (strict mode).
\<close>

definition cast_path ::
  "(string \<Rightarrow> date option) \<Rightarrow> string \<times> bval \<Rightarrow> string + (user_doc \<Rightarrow> user_doc)" where
  "cast_path parse kv =
     (case kv of (key, v) \<Rightarrow>
        if key = ''keycloakId'' then
          (case cast_required key (\<lambda>s. s) v of Inl e \<Rightarrow> Inl e
           | Inr s \<Rightarrow> Inr (\<lambda>d. d\<lparr>keycloakId := Some s\<rparr>))
        else if key = ''email'' then
          (case cast_required key (toLowerCase \<circ> trim) v of Inl e \<Rightarrow> Inl e
           | Inr s \<Rightarrow> Inr (\<lambda>d. d\<lparr>email := Some s\<rparr>))
        else if key = ''username'' then
          (case cast_required key trim v of Inl e \<Rightarrow> Inl e
           | Inr s \<Rightarrow> Inr (\<lambda>d. d\<lparr>username := Some s\<rparr>))
        else if key = ''firstName'' then
          (case cast_string key v of Inl e \<Rightarrow> Inl e
           | Inr s \<Rightarrow> Inr (\<lambda>d. d\<lparr>firstName := Some (trim s)\<rparr>))
        else if key = ''lastName'' then
          (case cast_string key v of Inl e \<Rightarrow> Inl e
           | Inr s \<Rightarrow> Inr (\<lambda>d. d\<lparr>lastName := Some (trim s)\<rparr>))
        else if key = ''enabled'' then
          (case castBoolean key v of Inl e \<Rightarrow> Inl e
           | Inr b \<Rightarrow> Inr (\<lambda>d. d\<lparr>enabled := b\<rparr>))
        else if key = ''emailVerified'' then
          (case castBoolean key v of Inl e \<Rightarrow> Inl e
           | Inr b \<Rightarrow> Inr (\<lambda>d. d\<lparr>emailVerified := b\<rparr>))
        else if key = ''profilePicture'' then
          (case cast_string key v of Inl e \<Rightarrow> Inl e
           | Inr s \<Rightarrow> Inr (\<lambda>d. d\<lparr>profilePicture := Some s\<rparr>))
        else if key = ''phoneNumber'' then
          (case cast_string key v of Inl e \<Rightarrow> Inl e
           | Inr s \<Rightarrow> Inr (\<lambda>d. d\<lparr>phoneNumber := Some s\<rparr>))
        else if key = ''lastLogin'' then
          (case castDate parse key v of Inl e \<Rightarrow> Inl e
           | Inr t \<Rightarrow> Inr (\<lambda>d. d\<lparr>lastLogin := t\<rparr>))
        else if key = ''preferences'' then
          (case v of BObj m \<Rightarrow> Inr (\<lambda>d. d\<lparr>preferences := m\<rparr>)
           | BStr s \<Rightarrow> Inl ''Cast to Map failed at path preferences'')
        else Inr (\<lambda>d. d))"

fun cast_update ::
  "(string \<Rightarrow> date option) \<Rightarrow> (string \<times> bval) list \<Rightarrow> string + (user_doc \<Rightarrow> user_doc)" where
  "cast_update parse [] = Inr (\<lambda>d. d)"
| "cast_update parse (kv # kvs) =
     (case cast_path parse kv of
        Inl e \<Rightarrow> Inl e
      | Inr f \<Rightarrow>
          (case cast_update parse kvs of Inl e \<Rightarrow> Inl e | Inr g \<Rightarrow> Inr (g \<circ> f)))"

text \<open>\<^verbatim>\<open>updateUserProfile(keycloakId, updateData)\<close>: only the members of \<^verbatim>\<open>updateData\<close>
  whose key is in \<^verbatim>\<open>allowedFields\<close> go into \<^verbatim>\<open>$set\<close>.\<close>

definition updateUserProfile ::
  "(string \<Rightarrow> date option) \<Rightarrow> io \<Rightarrow> string option \<Rightarrow> (string \<times> bval) list \<Rightarrow> user_doc list
     \<Rightarrow> (string + user_doc) \<times> user_doc list" where
  "updateUserProfile parse w k updateData docs =
     (case cast_update parse (updateFields_of updateData) of
        Inl e \<Rightarrow> (rethrow ''Failed to update user: '' (Inl e), docs)
      | Inr f \<Rightarrow>
          (case findOneAndUpdate (by_keycloakId k) f (stamp w) docs of
             (None, docs') \<Rightarrow> (rethrow ''Failed to update user: '' (Inl ''User not found''), docs)
           | (Some user, docs') \<Rightarrow> (rethrow ''Failed to update user: '' (Inr user), docs')))"

definition deleteUser ::
  "io \<Rightarrow> string option \<Rightarrow> user_doc list \<Rightarrow> (string + user_doc) \<times> user_doc list" where
  "deleteUser w k docs =
     (case findOneAndUpdate (by_keycloakId k) (\<lambda>d. d\<lparr>enabled := False\<rparr>) (stamp w) docs of
        (None, docs') \<Rightarrow> (rethrow ''Failed to delete user: '' (Inl ''User not found''), docs)
      | (Some user, docs') \<Rightarrow> (rethrow ''Failed to delete user: '' (Inr user), docs'))"

definition checkDatabaseConnection :: "io \<Rightarrow> bool" where
  "checkDatabaseConnection w = db_ready w"

section \<open>Responses\<close>

record token_info =
  t_keycloakId :: "string option"
  t_email :: "string option"
  t_username :: "string option"
  t_roles :: "string list"
  t_clientRoles :: "string list"

record validation_error =
  v_field :: string
  v_msg :: string
  v_value :: bval

text \<open>What a response carries besides \<^verbatim>\<open>success\<close>, \<^verbatim>\<open>message\<close> and \<^verbatim>\<open>error\<close>.\<close>

datatype payload =
    NoData
  | UserData user_doc
  | ProfileData user_doc token_info
  | UsersData "user_doc list" pagination
  | ValidationErrors "validation_error list"
  | LogoutData date
  | HealthData bool date

text \<open>\<^verbatim>\<open>res.status(status).json({ success, message, error, ... })\<close>; \<open>error = None\<close> when
  the object has no \<^verbatim>\<open>error\<close> key.\<close>

record response =
  status :: nat
  success :: bool
  message :: string
  error :: "string option"
  payload :: payload

definition succeed :: "string \<Rightarrow> payload \<Rightarrow> response" where
  "succeed m p = \<lparr>status = 200, success = True, message = m, error = None, payload = p\<rparr>"

definition reject :: "nat \<Rightarrow> string \<Rightarrow> string option \<Rightarrow> response" where
  "reject st m e = \<lparr>status = st, success = False, message = m, error = e, payload = NoData\<rparr>"

text \<open>A middleware either ends the request with a response or calls \<^verbatim>\<open>next()\<close>.\<close>

datatype outcome = Respond response | Next request

section \<open>The Keycloak middleware\<close>

definition handleVerificationError :: "jwt_error \<Rightarrow> response" where
  "handleVerificationError err =
     (if err_name err = ''TokenExpiredError'' then
        reject 401 ''Token has expired'' (Some ''TOKEN_EXPIRED'')
      else if err_name err = ''JsonWebTokenError'' then
        reject 401 ''Invalid token'' (Some ''INVALID_TOKEN'')
      else if err_name err = ''TokenNotBeforeError'' then
        reject 401 ''Token not yet valid'' (Some ''TOKEN_NOT_YET_VALID'')
      else
        reject 401 ''Token verification failed'' (Some (err_name err)))"

text \<open>\<^verbatim>\<open>decoded.resource_access?.[expectedAudience]?.roles || []\<close> and
  \<^verbatim>\<open>decoded.realm_access?.roles || []\<close>.\<close>

definition roles_or_empty :: "access option \<Rightarrow> string list" where
  "roles_or_empty a =
     (case a of None \<Rightarrow> []
      | Some acc \<Rightarrow> (case roles_of acc of None \<Rightarrow> [] | Some rs \<Rightarrow> rs))"

definition client_access :: "claims \<Rightarrow> string option \<Rightarrow> access option" where
  "client_access decoded expectedAudience =
     (case resource_access decoded of
        None \<Rightarrow> None
      | Some ra \<Rightarrow> map_of ra (tmpl expectedAudience))"

definition user_info :: "claims \<Rightarrow> string option \<Rightarrow> identity" where
  "user_info decoded expectedAudience =
     \<lparr>i_keycloakId = sub decoded,
      i_email = c_email decoded,
      i_username = or_else (preferred_username decoded) (c_username decoded),
      i_firstName = given_name decoded,
      i_lastName = family_name decoded,
      i_emailVerified = email_verified decoded,
      i_roles = roles_or_empty (realm_access decoded),
      i_clientRoles = roles_or_empty (client_access decoded expectedAudience),
      i_token = decoded\<rparr>"

definition attachUserInfo :: "claims \<Rightarrow> string option \<Rightarrow> request \<Rightarrow> outcome" where
  "attachUserInfo decoded expectedAudience req =
     Next (req\<lparr>req_user := Some (user_info decoded expectedAudience)\<rparr>)"

text \<open>The four responses with which the middleware refuses an authorization header.\<close>

definition missing_credential :: response where
  "missing_credential = reject 401 ''No authorization header provided'' None"

definition bad_prefix :: response where
  \<open>bad_prefix = reject 401 ''Authorization header must start with "Bearer "'' None\<close>

definition bad_format :: response where
  "bad_format =
     reject 401 ''Invalid authorization header format. Expected: Bearer <token>'' None"

definition empty_token :: response where
  "empty_token = reject 401 ''Token is empty'' None"

text \<open>Lines 140 to 173 of the middleware: the bearer token of the request, or the 401
  that ends it. \<^verbatim>\<open>!authHeader\<close> holds for a header that is absent and for one that is the
  empty string.\<close>

definition bearer_token :: "request \<Rightarrow> response + string" where
  "bearer_token req =
     (if \<not> truthy (authorization req) then Inl missing_credential
      else
        (let authHeader = the (authorization req)
         in if \<not> startsWith authHeader ''Bearer '' then Inl bad_prefix
            else
              (case split_js CHR '' '' authHeader of
                 [p0, p1] \<Rightarrow>
                   (let token = trim p1
                    in if token = [] then Inl empty_token else Inr token)
               | parts \<Rightarrow> Inl bad_format)))"

text \<open>Lines 175 to 219: the issuer check, the verification with the audience, and the
  retry without it. An exception that escapes \<^verbatim>\<open>jwt.verify\<close> reaches the \<^verbatim>\<open>catch\<close> of the
  middleware.\<close>

definition internal_error :: response where
  "internal_error = reject 500 ''Internal server error during token validation'' None"

definition issuer_url :: "env \<Rightarrow> string" where
  "issuer_url e = tmpl (KEYCLOAK_URL e) @ ''/realms/'' @ tmpl (KEYCLOAK_REALM e)"

definition algorithm_of :: "env \<Rightarrow> string" where
  "algorithm_of e = (if truthy (JWT_ALGORITHM e) then the (JWT_ALGORITHM e) else ''RS256'')"

text \<open>\<^verbatim>\<open>verifyOptions\<close>: the audience is set only when the client id is configured.\<close>

definition verifyOptions :: "env \<Rightarrow> verify_options" where
  "verifyOptions e =
     \<lparr>algorithms = [algorithm_of e], issuer = issuer_url e,
      audience = (if truthy (KEYCLOAK_CLIENT_ID e) then KEYCLOAK_CLIENT_ID e else None)\<rparr>"

definition retryOptions :: "env \<Rightarrow> verify_options" where
  "retryOptions e = \<lparr>algorithms = [algorithm_of e], issuer = issuer_url e, audience = None\<rparr>"

definition verify_token :: "env \<Rightarrow> verifier \<Rightarrow> string \<Rightarrow> request \<Rightarrow> outcome" where
  "verify_token e verify token req =
     (let expectedAudience = KEYCLOAK_CLIENT_ID e
      in if issuer_url e = [] \<or> str_includes (issuer_url e) ''undefined'' then
           Respond (reject 500
             ''Server configuration error: KEYCLOAK_URL and KEYCLOAK_REALM must be set'' None)
         else
           (case verify token (verifyOptions e) of
              Threw \<Rightarrow> Respond internal_error
            | Failed err \<Rightarrow>
                if err_message err \<noteq> [] \<and> str_includes (err_message err) ''audience''
                   \<and> truthy expectedAudience then
                  (case verify token (retryOptions e) of
                     Threw \<Rightarrow> Respond internal_error
                   | Failed retryErr \<Rightarrow> Respond (handleVerificationError retryErr)
                   | Decoded retryDecoded \<Rightarrow> attachUserInfo retryDecoded expectedAudience req)
                else Respond (handleVerificationError err)
            | Decoded decoded \<Rightarrow> attachUserInfo decoded expectedAudience req))"

definition validateKeycloakToken :: "env \<Rightarrow> verifier \<Rightarrow> request \<Rightarrow> outcome" where
  "validateKeycloakToken e verify req =
     (case bearer_token req of
        Inl r \<Rightarrow> Respond r
      | Inr token \<Rightarrow> verify_token e verify token req)"

section \<open>The validator of the update route\<close>

text \<open>
  \<^verbatim>\<open>validateUpdateUser\<close> is a list of express-validator chains followed by
  \<^verbatim>\<open>handleValidationErrors\<close>. A chain marked \<^verbatim>\<open>optional()\<close> is skipped when the body has no
  such key. A standard validator reads the value as a string (an object reads as
  \<^verbatim>\<open>[object Object]\<close>); every validator of a chain runs, and each failure adds one error.
  \<^verbatim>\<open>isEmail\<close> and \<^verbatim>\<open>normalizeEmail\<close> belong to the validator package and are parameters.
\<close>

definition toString_bval :: "bval \<Rightarrow> string" where
  "toString_bval v = (case v of BStr s \<Rightarrow> s | BObj m \<Rightarrow> ''[object Object]'')"

definition check :: "string \<Rightarrow> bool \<Rightarrow> string \<Rightarrow> bval \<Rightarrow> validation_error list" where
  "check field passed msg v =
     (if passed then [] else [\<lparr>v_field = field, v_msg = msg, v_value = v\<rparr>])"

definition isLength :: "nat \<Rightarrow> nat \<Rightarrow> string \<Rightarrow> bool" where
  "isLength lo hi s = (lo \<le> length s \<and> length s \<le> hi)"

definition isDigit :: "char \<Rightarrow> bool" where
  "isDigit c = (let n = (of_char c :: nat) in 48 \<le> n \<and> n \<le> 57)"

definition isWordChar :: "char \<Rightarrow> bool" where
  "isWordChar c =
     (let n = (of_char c :: nat)
      in (48 \<le> n \<and> n \<le> 57) \<or> (65 \<le> n \<and> n \<le> 90) \<or> (97 \<le> n \<and> n \<le> 122) \<or> n = 95)"

text \<open>\<^verbatim>\<open>/^[a-zA-Z0-9_]+$/\<close>\<close>

definition matches_username :: "string \<Rightarrow> bool" where
  "matches_username s = (s \<noteq> [] \<and> list_all isWordChar s)"

text \<open>\<^verbatim>\<open>/^\+?[1-9]\d{1,14}$/\<close>\<close>

definition matches_phone :: "string \<Rightarrow> bool" where
  "matches_phone s =
     (let t = (case s of [] \<Rightarrow> [] | c # cs \<Rightarrow> if c = CHR ''+'' then cs else s)
      in case t of
           [] \<Rightarrow> False
         | c # cs \<Rightarrow> isDigit c \<and> c \<noteq> CHR ''0'' \<and> 1 \<le> length cs \<and> length cs \<le> 14
                      \<and> list_all isDigit cs)"

definition isObject :: "bval \<Rightarrow> bool" where
  "isObject v = (case v of BObj m \<Rightarrow> True | BStr s \<Rightarrow> False)"

definition update_errors :: "(string \<Rightarrow> bool) \<Rightarrow> (string \<times> bval) list \<Rightarrow> validation_error list" where
  "update_errors isEmail b =
     (case map_of b ''email'' of None \<Rightarrow> []
      | Some v \<Rightarrow> check ''email'' (isEmail (toString_bval v))
                   ''Email must be a valid email address'' v)
     @ (case map_of b ''username'' of None \<Rightarrow> []
        | Some v \<Rightarrow> check ''username'' (isLength 3 30 (toString_bval v))
                     ''Username must be between 3 and 30 characters'' v
                   @ check ''username'' (matches_username (toString_bval v))
                     ''Username can only contain letters, numbers, and underscores'' v)
     @ (case map_of b ''firstName'' of None \<Rightarrow> []
        | Some v \<Rightarrow> check ''firstName'' (isLength 1 50 (toString_bval v))
                     ''First name must be between 1 and 50 characters'' v)
     @ (case map_of b ''lastName'' of None \<Rightarrow> []
        | Some v \<Rightarrow> check ''lastName'' (isLength 1 50 (toString_bval v))
                     ''Last name must be between 1 and 50 characters'' v)
     @ (case map_of b ''phoneNumber'' of None \<Rightarrow> []
        | Some v \<Rightarrow> check ''phoneNumber'' (matches_phone (toString_bval v))
                     ''Phone number must be in E.164 format'' v)
     @ (case map_of b ''preferences'' of None \<Rightarrow> []
        | Some v \<Rightarrow> check ''preferences'' (isObject v) ''Preferences must be an object'' v)"

text \<open>The sanitizers at the end of the chains write their result back into the body.\<close>

definition sanitize :: "(string \<Rightarrow> string) \<Rightarrow> string \<times> bval \<Rightarrow> string \<times> bval" where
  "sanitize normalizeEmail kv =
     (case kv of (key, v) \<Rightarrow>
        if key = ''email'' then (key, BStr (trim (normalizeEmail (toString_bval v))))
        else if key = ''username'' \<or> key = ''firstName'' \<or> key = ''lastName''
          then (key, BStr (trim (toString_bval v)))
        else (key, v))"

definition handleValidationErrors :: "validation_error list \<Rightarrow> request \<Rightarrow> outcome" where
  "handleValidationErrors errors req =
     (if errors \<noteq> [] then
        Respond \<lparr>status = 400, success = False, message = ''Validation failed'',
                 error = None, payload = ValidationErrors errors\<rparr>
      else Next req)"

definition validateUpdateUser :: "(string \<Rightarrow> bool) \<Rightarrow> (string \<Rightarrow> string) \<Rightarrow> request \<Rightarrow> outcome" where
  "validateUpdateUser isEmail normalizeEmail req =
     handleValidationErrors (update_errors isEmail (body req))
       (req\<lparr>body := map (sanitize normalizeEmail) (body req)\<rparr>)"

section \<open>The controllers\<close>

text \<open>
  \<^verbatim>\<open>parseInt\<close> of a query parameter: leading white space, a sign, an optional
  \<^verbatim>\<open>0x\<close>, then the longest run of digits; \<open>None\<close> is \<^verbatim>\<open>NaN\<close>. A parameter is a string or
  absent, and the result is exact (no rounding to a double).
\<close>

definition digit_of :: "nat \<Rightarrow> char \<Rightarrow> nat option" where
  "digit_of radix c =
     (let n = (of_char c :: nat);
          v = (if 48 \<le> n \<and> n \<le> 57 then Some (n - 48)
               else if 97 \<le> n \<and> n \<le> 122 then Some (n - 87)
               else if 65 \<le> n \<and> n \<le> 90 then Some (n - 55)
               else None)
      in case v of None \<Rightarrow> None | Some d \<Rightarrow> if d < radix then Some d else None)"

fun digits_value :: "nat \<Rightarrow> string \<Rightarrow> nat option \<Rightarrow> nat option" where
  "digits_value radix [] acc = acc"
| "digits_value radix (c # cs) acc =
     (case digit_of radix c of
        None \<Rightarrow> acc
      | Some d \<Rightarrow>
          digits_value radix cs (Some (radix * (case acc of None \<Rightarrow> 0 | Some a \<Rightarrow> a) + d)))"

definition parseInt :: "string option \<Rightarrow> int option" where
  "parseInt v =
     (case v of
        None \<Rightarrow> None
      | Some s \<Rightarrow>
          (let s1 = dropWhile isJsSpace s;
               neg = (s1 \<noteq> [] \<and> hd s1 = CHR ''-'');
               s2 = (if s1 \<noteq> [] \<and> (hd s1 = CHR ''-'' \<or> hd s1 = CHR ''+'') then tl s1 else s1);
               hex = (startsWith s2 ''0x'' \<or> startsWith s2 ''0X'');
               n = (if hex then digits_value 16 (drop 2 s2) None else digits_value 10 s2 None)
           in map_option (\<lambda>m. if neg then - int m else int m) n))"

text \<open>\<^verbatim>\<open>parseInt(x) || dflt\<close>: \<^verbatim>\<open>NaN\<close> and 0 are falsy.\<close>

definition or_default :: "int option \<Rightarrow> int \<Rightarrow> int" where
  "or_default x dflt = (case x of None \<Rightarrow> dflt | Some n \<Rightarrow> if n = 0 then dflt else n)"

text \<open>A controller that reads \<^verbatim>\<open>req.user.keycloakId\<close> when no middleware has set
  \<^verbatim>\<open>req.user\<close> throws a TypeError inside its \<^verbatim>\<open>try\<close>.\<close>

definition no_user_message :: string where
  "no_user_message = ''Cannot read properties of undefined''"

text \<open>The object \<^verbatim>\<open>getCurrentUser\<close> hands to the synchronisation: the identity of the
  request, and \<^verbatim>\<open>enabled: true\<close>.\<close>

definition sync_data :: "identity \<Rightarrow> userData" where
  "sync_data u =
     \<lparr>d_keycloakId = i_keycloakId u, d_email = i_email u, d_username = i_username u,
      d_firstName = i_firstName u, d_lastName = i_lastName u,
      d_emailVerified = i_emailVerified u, d_enabled = Some True\<rparr>"

definition tokenInfo :: "identity \<Rightarrow> token_info" where
  "tokenInfo u =
     \<lparr>t_keycloakId = i_keycloakId u, t_email = i_email u, t_username = i_username u,
      t_roles = i_roles u, t_clientRoles = i_clientRoles u\<rparr>"

definition getCurrentUser :: "io \<Rightarrow> request \<Rightarrow> user_doc list \<Rightarrow> outcome \<times> user_doc list" where
  "getCurrentUser w req docs =
     (case req_user req of
        None \<Rightarrow>
          (Respond (reject 500 ''Failed to retrieve user profile'' (Some no_user_message)), docs)
      | Some u \<Rightarrow>
          (case syncUserFromKeycloak w (sync_data u) docs of
             (user, docs') \<Rightarrow>
               (Respond (succeed ''User profile retrieved successfully''
                  (ProfileData user (tokenInfo u))), docs')))"

definition getUserById_controller :: "request \<Rightarrow> user_doc list \<Rightarrow> outcome \<times> user_doc list" where
  "getUserById_controller req docs =
     (case getUserById (param_id req) docs of
        Inr user \<Rightarrow> (Respond (succeed ''User retrieved successfully'' (UserData user)), docs)
      | Inl m \<Rightarrow>
          (Respond (reject (if m = ''User not found'' then 404 else 500) m (Some m)), docs))"

definition getAllUsers_controller :: "request \<Rightarrow> user_doc list \<Rightarrow> outcome \<times> user_doc list" where
  "getAllUsers_controller req docs =
     (let page = or_default (parseInt (query_page req)) 1;
          limit = or_default (parseInt (query_limit req)) 10
      in case getAllUsers page limit docs of
           Inr (users, pg) \<Rightarrow>
             (Respond (succeed ''Users retrieved successfully'' (UsersData users pg)), docs)
         | Inl m \<Rightarrow> (Respond (reject 500 ''Failed to retrieve users'' (Some m)), docs))"

definition updateCurrentUser ::
  "(string \<Rightarrow> date option) \<Rightarrow> io \<Rightarrow> request \<Rightarrow> user_doc list \<Rightarrow> outcome \<times> user_doc list" where
  "updateCurrentUser parse w req docs =
     (case req_user req of
        None \<Rightarrow> (Respond (reject 500 no_user_message (Some no_user_message)), docs)
      | Some u \<Rightarrow>
          (case updateUserProfile parse w (i_keycloakId u) (body req) docs of
             (Inr updatedUser, docs') \<Rightarrow>
               (Respond (succeed ''User profile updated successfully'' (UserData updatedUser)),
                docs')
           | (Inl m, docs') \<Rightarrow>
               (Respond (reject (if m = ''User not found'' then 404 else 500) m (Some m)),
                docs')))"

definition deleteCurrentUser :: "io \<Rightarrow> request \<Rightarrow> user_doc list \<Rightarrow> outcome \<times> user_doc list" where
  "deleteCurrentUser w req docs =
     (case req_user req of
        None \<Rightarrow> (Respond (reject 500 no_user_message (Some no_user_message)), docs)
      | Some u \<Rightarrow>
          (case deleteUser w (i_keycloakId u) docs of
             (Inr user, docs') \<Rightarrow> (Respond (succeed ''User deleted successfully'' NoData), docs')
           | (Inl m, docs') \<Rightarrow>
               (Respond (reject (if m = ''User not found'' then 404 else 500) m (Some m)),
                docs')))"

definition logout :: "io \<Rightarrow> request \<Rightarrow> user_doc list \<Rightarrow> outcome \<times> user_doc list" where
  "logout w req docs =
     (Respond (succeed ''Logout successful. Token should be cleared on frontend.''
        (LogoutData (now w))), docs)"

definition healthCheck :: "io \<Rightarrow> request \<Rightarrow> user_doc list \<Rightarrow> outcome \<times> user_doc list" where
  "healthCheck w req docs =
     (Respond (succeed ''User service health check''
        (HealthData (checkDatabaseConnection w) (now w))), docs)"

section \<open>The router\<close>

datatype route = Health | GetMe | PutMe | DeleteMe | Logout | GetById | GetAll

text \<open>What the handlers take from packages: the token verifier, the two e-mail
  functions of the validator, and the date parser behind Mongoose's cast to a date.\<close>

record libs =
  verify :: verifier
  isEmail :: "string \<Rightarrow> bool"
  normalizeEmail :: "string \<Rightarrow> string"
  parseDate :: "string \<Rightarrow> date option"

type_synonym handler = "request \<Rightarrow> user_doc list \<Rightarrow> outcome \<times> user_doc list"

text \<open>A middleware that does not touch the collection.\<close>

definition pure_mw :: "(request \<Rightarrow> outcome) \<Rightarrow> handler" where
  "pure_mw m req docs = (m req, docs)"

text \<open>The handlers of each route, in the order \<^verbatim>\<open>userRoutes.js\<close> registers them.\<close>

definition handlers :: "env \<Rightarrow> libs \<Rightarrow> io \<Rightarrow> route \<Rightarrow> handler list" where
  "handlers e l w r =
     (case r of
        Health \<Rightarrow> [healthCheck w]
      | GetMe \<Rightarrow> [pure_mw (validateKeycloakToken e (verify l)), getCurrentUser w]
      | PutMe \<Rightarrow> [pure_mw (validateKeycloakToken e (verify l)),
                  pure_mw (validateUpdateUser (isEmail l) (normalizeEmail l)),
                  updateCurrentUser (parseDate l) w]
      | DeleteMe \<Rightarrow> [pure_mw (validateKeycloakToken e (verify l)), deleteCurrentUser w]
      | Logout \<Rightarrow> [pure_mw (validateKeycloakToken e (verify l)), logout w]
      | GetById \<Rightarrow> [pure_mw (validateKeycloakToken e (verify l)), getUserById_controller]
      | GetAll \<Rightarrow> [pure_mw (validateKeycloakToken e (verify l)), getAllUsers_controller])"

text \<open>Express runs the handlers in order until one responds; a request that falls off the
  end reaches the 404 handler of the application.\<close>

fun run_chain :: "handler list \<Rightarrow> request \<Rightarrow> user_doc list \<Rightarrow> response \<times> user_doc list" where
  "run_chain [] req docs = (reject 404 ''Route not found'' None, docs)"
| "run_chain (h # hs) req docs =
     (case h req docs of
        (Respond r, docs') \<Rightarrow> (r, docs')
      | (Next req', docs') \<Rightarrow> run_chain hs req' docs')"

definition handleRequest ::
  "env \<Rightarrow> libs \<Rightarrow> io \<Rightarrow> route \<Rightarrow> request \<Rightarrow> user_doc list \<Rightarrow> response \<times> user_doc list" where
  "handleRequest e l w r req docs = run_chain (handlers e l w r) req docs"

section \<open>Sequences of calls and sample inputs\<close>

text \<open>Successive synchronisations with the same data, one clock reading per call.\<close>

fun sync_all :: "io list \<Rightarrow> userData \<Rightarrow> user_doc list \<Rightarrow> user_doc list" where
  "sync_all [] ud docs = docs"
| "sync_all (w # ws) ud docs = sync_all ws ud (snd (syncUserFromKeycloak w ud docs))"

text \<open>The identity key of a stored document, with the \<^verbatim>\<open>_id\<close> that names the document.\<close>

definition identity_key :: "user_doc \<Rightarrow> string \<times> string option" where
  "identity_key d = (u_id d, keycloakId d)"

text \<open>A document with its two write timestamps blanked, and a document with the fields a
  profile update may write blanked: what is left is what such a write must not change.\<close>

definition without_write_times :: "user_doc \<Rightarrow> user_doc" where
  "without_write_times d = d\<lparr>lastLogin := None, updatedAt := 0\<rparr>"

definition without_profile_fields :: "user_doc \<Rightarrow> user_doc" where
  "without_profile_fields d =
     d\<lparr>firstName := None, lastName := None, phoneNumber := None, profilePicture := None,
       preferences := [], updatedAt := 0\<rparr>"

text \<open>The members of a body that the update route reads at all: the allow-listed ones and
  the two others its validator checks.\<close>

definition read_by_update :: "(string \<times> bval) list \<Rightarrow> (string \<times> bval) list" where
  "read_by_update b =
     filter (\<lambda>(key, v). key \<in> set allowedFields \<or> key = ''email'' \<or> key = ''username'') b"

text \<open>The inputs the example theorems below evaluate the service on.\<close>

definition sample_env :: env where
  "sample_env =
     \<lparr>KEYCLOAK_URL = Some ''http://kc'', KEYCLOAK_REALM = Some ''demo'',
      KEYCLOAK_CLIENT_ID = Some ''app'', JWT_ALGORITHM = None\<rparr>"

definition sample_request :: "string option \<Rightarrow> request" where
  "sample_request h =
     \<lparr>authorization = h, param_id = [], query_page = None, query_limit = None,
      body = [], req_user = None\<rparr>"

definition sample_claims :: claims where
  "sample_claims =
     \<lparr>sub = Some ''u-1'', c_email = Some ''Ann@Example.org'',
      preferred_username = Some ''ann'', c_username = None, given_name = Some ''Ann'',
      family_name = Some ''Lee'', email_verified = Some True,
      realm_access = Some (Access (Some [''user''])),
      resource_access = Some [(''app'', Access (Some [''editor'']))]\<rparr>"

text \<open>The errors jsonwebtoken reports for a wrong audience, a tampered signature and a
  token that is not three dot-separated parts.\<close>

definition audience_error :: jwt_error where
  "audience_error =
     \<lparr>err_name = ''JsonWebTokenError'', err_message = ''jwt audience invalid. expected: app''\<rparr>"

definition signature_error :: jwt_error where
  "signature_error = \<lparr>err_name = ''JsonWebTokenError'', err_message = ''invalid signature''\<rparr>"

definition malformed_error :: jwt_error where
  "malformed_error = \<lparr>err_name = ''JsonWebTokenError'', err_message = ''jwt malformed''\<rparr>"

definition relaxing_verifier :: verifier where
  "relaxing_verifier token opts =
     (if audience opts = None then Decoded sample_claims else Failed audience_error)"

definition accepting_verifier :: verifier where
  "accepting_verifier token opts = Decoded sample_claims"

definition failing_verifier :: "jwt_error \<Rightarrow> verifier" where
  "failing_verifier err token opts = Failed err"

definition sample_libs :: "verifier \<Rightarrow> libs" where
  "sample_libs v =
     \<lparr>verify = v, isEmail = (\<lambda>s. CHR ''@'' \<in> set s), normalizeEmail = (\<lambda>s. s),
      parseDate = (\<lambda>s. if list_all isDigit s then digits_value 10 s None else None)\<rparr>"

definition sample_io :: "date \<Rightarrow> io" where
  "sample_io t = \<lparr>now = t, stamp = t, fresh_id = ''507f1f77bcf86cd799439011'', db_ready = True\<rparr>"

definition sample_doc :: user_doc where
  "sample_doc =
     \<lparr>u_id = ''507f1f77bcf86cd799439011'', keycloakId = Some ''u-1'',
      email = Some ''ann@example.org'', username = Some ''ann'', firstName = Some ''Ann'',
      lastName = Some ''Lee'', enabled = True, emailVerified = True, profilePicture = None,
      phoneNumber = None, lastLogin = Some 1000, preferences = [], createdAt = 1000,
      updatedAt = 1000\<rparr>"

definition sample_userData :: userData where
  "sample_userData =
     \<lparr>d_keycloakId = Some ''u-1'', d_email = Some ''Ann@Example.org'',
      d_username = Some ''ann'', d_firstName = Some ''Ann'', d_lastName = Some ''Lee'',
      d_emailVerified = Some True, d_enabled = Some True\<rparr>"

section \<open>The middleware in front of the routes\<close>

lemma validate_respond:
  "validateKeycloakToken e v req = Respond resp \<Longrightarrow>
   run_chain (pure_mw (validateKeycloakToken e v) # hs) req docs = (resp, docs)"
  by (simp add: pure_mw_def)

lemma validate_next:
  "validateKeycloakToken e v req = Next req' \<Longrightarrow>
   run_chain (pure_mw (validateKeycloakToken e v) # hs) req docs = run_chain hs req' docs"
  by (simp add: pure_mw_def)

lemma validate_next_user:
  assumes "validateKeycloakToken e v req = Next req'"
  shows "\<exists>u. req' = req\<lparr>req_user := Some u\<rparr>"
  using assms
  by (auto simp: validateKeycloakToken_def verify_token_def attachUserInfo_def Let_def
      split: sum.splits if_splits verify_result.splits)

lemma protected_handlers:
  "r \<noteq> Health \<Longrightarrow> \<exists>hs. handlers e l w r = pure_mw (validateKeycloakToken e (verify l)) # hs"
  by (cases r) (simp_all add: handlers_def)

lemma protected_rejects:
  assumes "r \<noteq> Health" and "validateKeycloakToken e (verify l) req = Respond resp"
  shows "handleRequest e l w r req docs = (resp, docs)"
proof -
  obtain hs where "handlers e l w r = pure_mw (validateKeycloakToken e (verify l)) # hs"
    using protected_handlers [OF assms(1)] by blast
  then show ?thesis
    using validate_respond [OF assms(2)] by (simp add: handleRequest_def)
qed

lemma bearer_token_cases:
  "bearer_token req =
     (case authorization req of
        None \<Rightarrow> Inl missing_credential
      | Some h \<Rightarrow>
          if h = [] then Inl missing_credential
          else if \<not> startsWith h ''Bearer '' then Inl bad_prefix
          else if length (split_js CHR '' '' h) \<noteq> 2 then Inl bad_format
          else if trim (split_js CHR '' '' h ! 1) = [] then Inl empty_token
          else Inr (trim (split_js CHR '' '' h ! 1)))"
  by (auto simp: bearer_token_def truthy_def Let_def split: option.splits list.splits)

lemma bearer_token_respond:
  "bearer_token req = Inl resp \<Longrightarrow> validateKeycloakToken e v req = Respond resp"
  by (simp add: validateKeycloakToken_def)

lemma startsWith_Bearer_nonempty: "startsWith h ''Bearer '' \<Longrightarrow> h \<noteq> []"
  by (auto simp: startsWith_def)

text \<open>
  C1. Take a request with a bearer token, a configured issuer and a configured client id.
  When \<^verbatim>\<open>jwt.verify\<close> with the algorithm, the issuer and that client id as audience fails
  with an error whose message mentions the audience, and \<^verbatim>\<open>jwt.verify\<close> with the same
  algorithm and issuer and no audience returns the claims, the middleware does not reject:
  it calls the next handler with \<^verbatim>\<open>req.user\<close> holding every field of the identity
  context, each read from those claims (the user name from \<^verbatim>\<open>preferred_username\<close>, or
  from \<^verbatim>\<open>username\<close> when that is absent or empty; the realm roles; the roles of the
  configured client; the claims themselves as \<^verbatim>\<open>token\<close>).
\<close>

theorem relaxed_audience_fallback:
  assumes tok: "bearer_token req = Inr token"
    and iss: "iss = tmpl (KEYCLOAK_URL e) @ ''/realms/'' @ tmpl (KEYCLOAK_REALM e)"
    and alg: "alg = (if truthy (JWT_ALGORITHM e) then the (JWT_ALGORITHM e) else ''RS256'')"
    and cfg: "\<not> str_includes iss ''undefined''"
    and aud: "KEYCLOAK_CLIENT_ID e = Some client" "client \<noteq> []"
    and first: "v token \<lparr>algorithms = [alg], issuer = iss, audience = Some client\<rparr> = Failed err"
    and msg: "str_includes (err_message err) ''audience''"
    and retry: "v token \<lparr>algorithms = [alg], issuer = iss, audience = None\<rparr> = Decoded decoded"
    and u: "u = \<lparr>i_keycloakId = sub decoded,
                i_email = c_email decoded,
                i_username = (if preferred_username decoded = None
                                 \<or> preferred_username decoded = Some []
                              then c_username decoded else preferred_username decoded),
                i_firstName = given_name decoded,
                i_lastName = family_name decoded,
                i_emailVerified = email_verified decoded,
                i_roles = (case realm_access decoded of
                             None \<Rightarrow> []
                           | Some a \<Rightarrow> (case roles_of a of None \<Rightarrow> [] | Some rs \<Rightarrow> rs)),
                i_clientRoles = (case resource_access decoded of
                                   None \<Rightarrow> []
                                 | Some ra \<Rightarrow>
                                     (case map_of ra client of
                                        None \<Rightarrow> []
                                      | Some a \<Rightarrow>
                                          (case roles_of a of None \<Rightarrow> [] | Some rs \<Rightarrow> rs))),
                i_token = decoded\<rparr>"
  shows "validateKeycloakToken e v req = Next (req\<lparr>req_user := Some u\<rparr>)
       \<and> run_chain (pure_mw (validateKeycloakToken e v) # hs) req docs =
           run_chain hs (req\<lparr>req_user := Some u\<rparr>) docs"
proof -
  have ne: "err_message err \<noteq> []"
    using msg by (cases "err_message err") auto
  have t: "truthy (KEYCLOAK_CLIENT_ID e)"
    using aud by (simp add: truthy_def)
  have vo: "verifyOptions e = \<lparr>algorithms = [alg], issuer = iss, audience = Some client\<rparr>"
    using iss alg aud t by (simp add: verifyOptions_def issuer_url_def algorithm_of_def)
  have ro: "retryOptions e = \<lparr>algorithms = [alg], issuer = iss, audience = None\<rparr>"
    using iss alg by (simp add: retryOptions_def issuer_url_def algorithm_of_def)
  have ui: "user_info decoded (KEYCLOAK_CLIENT_ID e) = u"
    using aud u
    by (auto simp: user_info_def or_else_def truthy_def roles_or_empty_def client_access_def
        tmpl_def split: option.splits)
  have i1: "issuer_url e = iss"
    using iss by (simp add: issuer_url_def)
  have i2: "iss \<noteq> []"
    using iss by simp
  have nxt: "validateKeycloakToken e v req = Next (req\<lparr>req_user := Some u\<rparr>)"
    using tok cfg t first msg retry ne i1 i2 vo ro ui
    by (simp add: validateKeycloakToken_def verify_token_def attachUserInfo_def)
  show ?thesis
    using nxt validate_next [OF nxt] by simp
qed

theorem relaxed_audience_fallback_witness:
  "validateKeycloakToken sample_env relaxing_verifier (sample_request (Some ''Bearer abc''))
     = Next ((sample_request (Some ''Bearer abc''))
          \<lparr>req_user := Some
             \<lparr>i_keycloakId = Some ''u-1'', i_email = Some ''Ann@Example.org'',
              i_username = Some ''ann'', i_firstName = Some ''Ann'', i_lastName = Some ''Lee'',
              i_emailVerified = Some True, i_roles = [''user''], i_clientRoles = [''editor''],
              i_token = sample_claims\<rparr>\<rparr>)"
proof -
  have tok: "bearer_token (sample_request (Some ''Bearer abc'')) = Inr ''abc''"
    by (simp add: bearer_token_def sample_request_def truthy_def startsWith_def trim_def
        isJsSpace_def)
  have iss: "''http://kc/realms/demo''
      = tmpl (KEYCLOAK_URL sample_env) @ ''/realms/'' @ tmpl (KEYCLOAK_REALM sample_env)"
    by (simp add: sample_env_def tmpl_def)
  have alg: "''RS256'' = (if truthy (JWT_ALGORITHM sample_env)
      then the (JWT_ALGORITHM sample_env) else ''RS256'')"
    by (simp add: sample_env_def truthy_def)
  have cfg: "\<not> str_includes ''http://kc/realms/demo'' ''undefined''"
    by (simp add: startsWith_def)
  have aud: "KEYCLOAK_CLIENT_ID sample_env = Some ''app''" "''app'' \<noteq> []"
    by (simp_all add: sample_env_def)
  have first: "relaxing_verifier ''abc''
      \<lparr>algorithms = [''RS256''], issuer = ''http://kc/realms/demo'', audience = Some ''app''\<rparr>
      = Failed audience_error"
    by (simp add: relaxing_verifier_def)
  have msg: "str_includes (err_message audience_error) ''audience''"
    by (simp add: audience_error_def startsWith_def)
  have retry: "relaxing_verifier ''abc''
      \<lparr>algorithms = [''RS256''], issuer = ''http://kc/realms/demo'', audience = None\<rparr>
      = Decoded sample_claims"
    by (simp add: relaxing_verifier_def)
  have u: "\<lparr>i_keycloakId = Some ''u-1'', i_email = Some ''Ann@Example.org'',
              i_username = Some ''ann'', i_firstName = Some ''Ann'', i_lastName = Some ''Lee'',
              i_emailVerified = Some True, i_roles = [''user''], i_clientRoles = [''editor''],
              i_token = sample_claims\<rparr>
      = \<lparr>i_keycloakId = sub sample_claims,
                i_email = c_email sample_claims,
                i_username = (if preferred_username sample_claims = None
                                 \<or> preferred_username sample_claims = Some []
                              then c_username sample_claims
                              else preferred_username sample_claims),
                i_firstName = given_name sample_claims,
                i_lastName = family_name sample_claims,
                i_emailVerified = email_verified sample_claims,
                i_roles = (case realm_access sample_claims of
                             None \<Rightarrow> []
                           | Some a \<Rightarrow> (case roles_of a of None \<Rightarrow> [] | Some rs \<Rightarrow> rs)),
                i_clientRoles = (case resource_access sample_claims of
                                   None \<Rightarrow> []
                                 | Some ra \<Rightarrow>
                                     (case map_of ra ''app'' of
                                        None \<Rightarrow> []
                                      | Some a \<Rightarrow>
                                          (case roles_of a of None \<Rightarrow> [] | Some rs \<Rightarrow> rs))),
                i_token = sample_claims\<rparr>"
    by (simp add: sample_claims_def)
  show ?thesis
    using relaxed_audience_fallback [where v = relaxing_verifier and e = sample_env
        and hs = "[]" and docs = "[]", OF tok iss alg cfg aud first msg retry u]
    by simp
qed

text \<open>
  C5. On every protected route: a request with no authorization header (or an empty one,
  which JavaScript also takes for none) is answered 401 "No authorization header
  provided"; a header that does not start with the word Bearer and a space, that does not
  split at spaces into exactly two parts, or whose token is empty after trimming, is
  answered 401 with the message of that defect. Whenever the middleware responds, the
  response is the answer of the route and the collection is untouched, whatever handlers
  follow it: none of them runs.
\<close>

theorem credential_rejections:
  assumes prot: "r \<noteq> Health"
  shows "(authorization req = None \<or> authorization req = Some [] \<longrightarrow>
            handleRequest e l w r req docs = (missing_credential, docs))
       \<and> (\<forall>h. authorization req = Some h \<and> h \<noteq> [] \<and> \<not> startsWith h ''Bearer '' \<longrightarrow>
            handleRequest e l w r req docs = (bad_prefix, docs))
       \<and> (\<forall>h. authorization req = Some h \<and> startsWith h ''Bearer ''
                \<and> length (split_js CHR '' '' h) \<noteq> 2 \<longrightarrow>
            handleRequest e l w r req docs = (bad_format, docs))
       \<and> (\<forall>h p0 p1. authorization req = Some h \<and> startsWith h ''Bearer ''
                \<and> split_js CHR '' '' h = [p0, p1] \<and> trim p1 = [] \<longrightarrow>
            handleRequest e l w r req docs = (empty_token, docs))
       \<and> status missing_credential = 401 \<and> status bad_prefix = 401
       \<and> status bad_format = 401 \<and> status empty_token = 401
       \<and> (\<forall>resp hs. validateKeycloakToken e (verify l) req = Respond resp \<longrightarrow>
            handleRequest e l w r req docs = (resp, docs)
            \<and> run_chain (pure_mw (validateKeycloakToken e (verify l)) # hs) req docs = (resp, docs))"
proof -
  have rej: "handleRequest e l w r req docs = (resp, docs)" if "bearer_token req = Inl resp" for resp
    using protected_rejects [OF prot bearer_token_respond [OF that]] .
  have a: "authorization req = None \<or> authorization req = Some [] \<longrightarrow>
            handleRequest e l w r req docs = (missing_credential, docs)"
    by (auto intro!: rej simp: bearer_token_cases)
  have b: "\<forall>h. authorization req = Some h \<and> h \<noteq> [] \<and> \<not> startsWith h ''Bearer '' \<longrightarrow>
            handleRequest e l w r req docs = (bad_prefix, docs)"
    by (auto intro!: rej simp: bearer_token_cases)
  have c: "\<forall>h. authorization req = Some h \<and> startsWith h ''Bearer ''
                \<and> length (split_js CHR '' '' h) \<noteq> 2 \<longrightarrow>
            handleRequest e l w r req docs = (bad_format, docs)"
    by (auto intro!: rej dest: startsWith_Bearer_nonempty simp: bearer_token_cases)
  have d: "\<forall>h p0 p1. authorization req = Some h \<and> startsWith h ''Bearer ''
                \<and> split_js CHR '' '' h = [p0, p1] \<and> trim p1 = [] \<longrightarrow>
            handleRequest e l w r req docs = (empty_token, docs)"
    by (auto intro!: rej dest: startsWith_Bearer_nonempty simp: bearer_token_cases)
  have s: "status missing_credential = 401 \<and> status bad_prefix = 401
       \<and> status bad_format = 401 \<and> status empty_token = 401"
    by (simp add: missing_credential_def bad_prefix_def bad_format_def empty_token_def reject_def)
  have f: "\<forall>resp hs. validateKeycloakToken e (verify l) req = Respond resp \<longrightarrow>
            handleRequest e l w r req docs = (resp, docs)
            \<and> run_chain (pure_mw (validateKeycloakToken e (verify l)) # hs) req docs = (resp, docs)"
    using protected_rejects [OF prot] validate_respond by blast
  show ?thesis using a b c d s f by blast
qed

theorem credential_rejections_witness:
  "handleRequest sample_env (sample_libs accepting_verifier) (sample_io 5) DeleteMe
      (sample_request None) [sample_doc] = (missing_credential, [sample_doc])
   \<and> handleRequest sample_env (sample_libs accepting_verifier) (sample_io 5) DeleteMe
      (sample_request (Some ''Basic abc'')) [sample_doc] = (bad_prefix, [sample_doc])
   \<and> handleRequest sample_env (sample_libs accepting_verifier) (sample_io 5) DeleteMe
      (sample_request (Some ''Bearer a b'')) [sample_doc] = (bad_format, [sample_doc])
   \<and> handleRequest sample_env (sample_libs accepting_verifier) (sample_io 5) DeleteMe
      (sample_request (Some ''Bearer '')) [sample_doc] = (empty_token, [sample_doc])"
proof -
  have prot: "DeleteMe \<noteq> Health" by simp
  have a: "authorization (sample_request None) = None" by (simp add: sample_request_def)
  have b: "authorization (sample_request (Some ''Basic abc'')) = Some ''Basic abc''
           \<and> ''Basic abc'' \<noteq> [] \<and> \<not> startsWith ''Basic abc'' ''Bearer ''"
    by (simp add: sample_request_def startsWith_def)
  have c: "authorization (sample_request (Some ''Bearer a b'')) = Some ''Bearer a b''
           \<and> startsWith ''Bearer a b'' ''Bearer ''
           \<and> length (split_js CHR '' '' ''Bearer a b'') \<noteq> 2"
    by (simp add: sample_request_def startsWith_def)
  have d: "authorization (sample_request (Some ''Bearer '')) = Some ''Bearer ''
           \<and> startsWith ''Bearer '' ''Bearer ''
           \<and> split_js CHR '' '' ''Bearer '' = [''Bearer'', []] \<and> trim [] = []"
    by (simp add: sample_request_def startsWith_def trim_def)
  note inst = credential_rejections [OF prot, where e = sample_env
      and l = "sample_libs accepting_verifier" and w = "sample_io 5" and docs = "[sample_doc]"]
  have w1: "handleRequest sample_env (sample_libs accepting_verifier) (sample_io 5) DeleteMe
      (sample_request None) [sample_doc] = (missing_credential, [sample_doc])"
    using inst [of "sample_request None"] a by blast
  have w2: "handleRequest sample_env (sample_libs accepting_verifier) (sample_io 5) DeleteMe
      (sample_request (Some ''Basic abc'')) [sample_doc] = (bad_prefix, [sample_doc])"
    using inst [of "sample_request (Some ''Basic abc'')"] b by blast
  have w3: "handleRequest sample_env (sample_libs accepting_verifier) (sample_io 5) DeleteMe
      (sample_request (Some ''Bearer a b'')) [sample_doc] = (bad_format, [sample_doc])"
    using inst [of "sample_request (Some ''Bearer a b'')"] c by blast
  have w4: "handleRequest sample_env (sample_libs accepting_verifier) (sample_io 5) DeleteMe
      (sample_request (Some ''Bearer '')) [sample_doc] = (empty_token, [sample_doc])"
    using inst [of "sample_request (Some ''Bearer '')"] d by blast
  show ?thesis using w1 w2 w3 w4 by simp
qed

lemma verify_token_failed:
  assumes cfg: "\<not> str_includes (issuer_url e) ''undefined''"
    and first: "v token (verifyOptions e) = Failed err"
    and noretry: "\<not> (str_includes (err_message err) ''audience'' \<and> truthy (KEYCLOAK_CLIENT_ID e))"
  shows "verify_token e v token req = Respond (handleVerificationError err)"
proof -
  have iss: "issuer_url e \<noteq> []"
    by (simp add: issuer_url_def)
  show ?thesis
    using cfg first noretry iss by (auto simp: verify_token_def)
qed

lemma verify_token_retry_failed:
  assumes cfg: "\<not> str_includes (issuer_url e) ''undefined''"
    and first: "v token (verifyOptions e) = Failed err"
    and retry: "str_includes (err_message err) ''audience'' \<and> truthy (KEYCLOAK_CLIENT_ID e)"
    and second: "v token (retryOptions e) = Failed err2"
  shows "verify_token e v token req = Respond (handleVerificationError err2)"
proof -
  have iss: "issuer_url e \<noteq> []"
    by (simp add: issuer_url_def)
  have ne: "err_message err \<noteq> []"
    using retry by (cases "err_message err") auto
  show ?thesis
    using cfg first retry second iss ne by (simp add: verify_token_def)
qed

lemma verify_token_config:
  assumes "str_includes (issuer_url e) ''undefined''"
  shows "verify_token e v token req = Respond (reject 500
     ''Server configuration error: KEYCLOAK_URL and KEYCLOAK_REALM must be set'' None)"
  using assms by (simp add: verify_token_def)

lemma handleVerificationError_code:
  "status (handleVerificationError err) = 401 \<and>
   error (handleVerificationError err) =
     Some (if err_name err = ''TokenExpiredError'' then ''TOKEN_EXPIRED''
           else if err_name err = ''JsonWebTokenError'' then ''INVALID_TOKEN''
           else if err_name err = ''TokenNotBeforeError'' then ''TOKEN_NOT_YET_VALID''
           else err_name err)"
  by (simp add: handleVerificationError_def reject_def)

text \<open>
  C3, as the claim states it, fails: the middleware has no code of its own for an invalid
  signature. jsonwebtoken reports a tampered signature, an algorithm mismatch and a
  malformed token all under the name JsonWebTokenError, and the middleware looks only at
  the name: the two requests below get the same response, with the code INVALID_TOKEN.
\<close>

theorem signature_code_not_distinct:
  "handleRequest sample_env (sample_libs (failing_verifier signature_error)) (sample_io 5) GetMe
     (sample_request (Some ''Bearer abc'')) []
   = handleRequest sample_env (sample_libs (failing_verifier malformed_error)) (sample_io 5) GetMe
     (sample_request (Some ''Bearer abc'')) []
   \<and> error (fst (handleRequest sample_env (sample_libs (failing_verifier signature_error))
        (sample_io 5) GetMe (sample_request (Some ''Bearer abc'')) [])) = Some ''INVALID_TOKEN''"
proof -
  have tok: "bearer_token (sample_request (Some ''Bearer abc'')) = Inr ''abc''"
    by (simp add: bearer_token_def sample_request_def truthy_def startsWith_def trim_def
        isJsSpace_def)
  have cfg: "\<not> str_includes (issuer_url sample_env) ''undefined''"
    by (simp add: issuer_url_def sample_env_def tmpl_def startsWith_def)
  have s: "verify_token sample_env (failing_verifier signature_error) ''abc'' req
      = Respond (handleVerificationError signature_error)" for req
    by (rule verify_token_failed [OF cfg])
       (simp_all add: failing_verifier_def signature_error_def startsWith_def)
  have m: "verify_token sample_env (failing_verifier malformed_error) ''abc'' req
      = Respond (handleVerificationError malformed_error)" for req
    by (rule verify_token_failed [OF cfg])
       (simp_all add: failing_verifier_def malformed_error_def startsWith_def)
  show ?thesis
    using tok s m
    by (simp add: handleRequest_def handlers_def pure_mw_def validateKeycloakToken_def
        sample_libs_def handleVerificationError_def signature_error_def malformed_error_def
        reject_def)
qed


text \<open>
  C3, amended. On every protected route, a request whose bearer token fails verification
  (directly, or in the retry after an audience error) is answered by
  \<^verbatim>\<open>handleVerificationError\<close> of that error with the collection untouched. The status is
  always 401, and the code follows the name of the error alone: TokenExpiredError gives
  TOKEN_EXPIRED, JsonWebTokenError gives INVALID_TOKEN, TokenNotBeforeError gives
  TOKEN_NOT_YET_VALID, and any other name is passed on as the code. An issuer address that
  contains the text "undefined" (the provider address or realm is unset) is answered with
  status 500 and no code.
\<close>

theorem verification_error_codes:
  assumes prot: "r \<noteq> Health"
    and tok: "bearer_token req = Inr token"
  shows "(str_includes (issuer_url e) ''undefined'' \<longrightarrow>
            status (fst (handleRequest e l w r req docs)) = 500
            \<and> error (fst (handleRequest e l w r req docs)) = None
            \<and> snd (handleRequest e l w r req docs) = docs)
       \<and> (\<not> str_includes (issuer_url e) ''undefined''
            \<and> verify l token (verifyOptions e) = Failed err
            \<and> \<not> (str_includes (err_message err) ''audience'' \<and> truthy (KEYCLOAK_CLIENT_ID e)) \<longrightarrow>
            handleRequest e l w r req docs = (handleVerificationError err, docs))
       \<and> (\<not> str_includes (issuer_url e) ''undefined''
            \<and> verify l token (verifyOptions e) = Failed err
            \<and> str_includes (err_message err) ''audience'' \<and> truthy (KEYCLOAK_CLIENT_ID e)
            \<and> verify l token (retryOptions e) = Failed err2 \<longrightarrow>
            handleRequest e l w r req docs = (handleVerificationError err2, docs))
       \<and> (\<forall>x. status (handleVerificationError x) = 401)
       \<and> (\<forall>x. err_name x = ''TokenExpiredError'' \<longrightarrow>
              error (handleVerificationError x) = Some ''TOKEN_EXPIRED'')
       \<and> (\<forall>x. err_name x = ''JsonWebTokenError'' \<longrightarrow>
              error (handleVerificationError x) = Some ''INVALID_TOKEN'')
       \<and> (\<forall>x. err_name x = ''TokenNotBeforeError'' \<longrightarrow>
              error (handleVerificationError x) = Some ''TOKEN_NOT_YET_VALID'')
       \<and> (\<forall>x. err_name x \<notin> {''TokenExpiredError'', ''JsonWebTokenError'', ''TokenNotBeforeError''} \<longrightarrow>
              error (handleVerificationError x) = Some (err_name x))"
proof -
  have v: "validateKeycloakToken e (verify l) req = verify_token e (verify l) token req"
    using tok by (simp add: validateKeycloakToken_def)
  have rej: "handleRequest e l w r req docs = (resp, docs)"
    if "verify_token e (verify l) token req = Respond resp" for resp
    using protected_rejects [OF prot, of e l req resp w docs] v that by simp
  have a: "str_includes (issuer_url e) ''undefined'' \<longrightarrow>
            status (fst (handleRequest e l w r req docs)) = 500
            \<and> error (fst (handleRequest e l w r req docs)) = None
            \<and> snd (handleRequest e l w r req docs) = docs"
    using rej [OF verify_token_config] by (simp add: reject_def)
  have b: "\<not> str_includes (issuer_url e) ''undefined''
            \<and> verify l token (verifyOptions e) = Failed err
            \<and> \<not> (str_includes (err_message err) ''audience'' \<and> truthy (KEYCLOAK_CLIENT_ID e)) \<longrightarrow>
            handleRequest e l w r req docs = (handleVerificationError err, docs)"
    using rej [OF verify_token_failed] by blast
  have c: "\<not> str_includes (issuer_url e) ''undefined''
            \<and> verify l token (verifyOptions e) = Failed err
            \<and> str_includes (err_message err) ''audience'' \<and> truthy (KEYCLOAK_CLIENT_ID e)
            \<and> verify l token (retryOptions e) = Failed err2 \<longrightarrow>
            handleRequest e l w r req docs = (handleVerificationError err2, docs)"
    using rej [OF verify_token_retry_failed] by blast
  have d: "(\<forall>x. status (handleVerificationError x) = 401)
       \<and> (\<forall>x. err_name x = ''TokenExpiredError'' \<longrightarrow>
              error (handleVerificationError x) = Some ''TOKEN_EXPIRED'')
       \<and> (\<forall>x. err_name x = ''JsonWebTokenError'' \<longrightarrow>
              error (handleVerificationError x) = Some ''INVALID_TOKEN'')
       \<and> (\<forall>x. err_name x = ''TokenNotBeforeError'' \<longrightarrow>
              error (handleVerificationError x) = Some ''TOKEN_NOT_YET_VALID'')
       \<and> (\<forall>x. err_name x \<notin> {''TokenExpiredError'', ''JsonWebTokenError'', ''TokenNotBeforeError''} \<longrightarrow>
              error (handleVerificationError x) = Some (err_name x))"
    by (simp add: handleVerificationError_code)
  show ?thesis
    using a b c d by blast
qed

theorem verification_error_codes_witness:
  "handleRequest sample_env (sample_libs (failing_verifier signature_error)) (sample_io 5)
     DeleteMe (sample_request (Some ''Bearer abc'')) [sample_doc]
   = (reject 401 ''Invalid token'' (Some ''INVALID_TOKEN''), [sample_doc])"
proof -
  have prot: "DeleteMe \<noteq> Health"
    by simp
  have tok: "bearer_token (sample_request (Some ''Bearer abc'')) = Inr ''abc''"
    by (simp add: bearer_token_def sample_request_def truthy_def startsWith_def trim_def
        isJsSpace_def)
  have cfg: "\<not> str_includes (issuer_url sample_env) ''undefined''"
    by (simp add: issuer_url_def sample_env_def tmpl_def startsWith_def)
  have first: "verify (sample_libs (failing_verifier signature_error)) ''abc''
      (verifyOptions sample_env) = Failed signature_error"
    by (simp add: sample_libs_def failing_verifier_def)
  have noretry: "\<not> (str_includes (err_message signature_error) ''audience''
      \<and> truthy (KEYCLOAK_CLIENT_ID sample_env))"
    by (simp add: signature_error_def startsWith_def)
  have code: "handleVerificationError signature_error
      = reject 401 ''Invalid token'' (Some ''INVALID_TOKEN'')"
    by (simp add: handleVerificationError_def signature_error_def)
  show ?thesis
    using verification_error_codes [OF prot tok, where e = sample_env
        and l = "sample_libs (failing_verifier signature_error)" and err = signature_error
        and w = "sample_io 5" and docs = "[sample_doc]"]
      cfg first noretry code
    by simp
qed

section \<open>The collection under the service\<close>

lemma find_split:
  "find p docs = Some d \<Longrightarrow>
   \<exists>pre post. docs = pre @ d # post \<and> (\<forall>x \<in> set pre. \<not> p x) \<and> p d
      \<and> (\<forall>f. update_first p f docs = pre @ f d # post)"
proof (induction docs)
  case Nil
  then show ?case by simp
next
  case (Cons a docs)
  show ?case
  proof (cases "p a")
    case True
    with Cons.prems have "a = d" by simp
    with True show ?thesis by (intro exI [of _ "[]"] exI [of _ docs]) simp
  next
    case False
    with Cons.prems have "find p docs = Some d" by simp
    from Cons.IH [OF this] obtain pre post where
      h: "docs = pre @ d # post" "\<forall>x \<in> set pre. \<not> p x" "p d"
         "\<forall>f. update_first p f docs = pre @ f d # post" by blast
    with False show ?thesis
      by (intro exI [of _ "a # pre"] exI [of _ post]) simp
  qed
qed

lemma find_append_first:
  "(\<forall>x \<in> set pre. \<not> p x) \<Longrightarrow> p d \<Longrightarrow> find p (pre @ d # post) = Some d"
  by (induction pre) auto

lemma find_none_append:
  "find p docs = None \<Longrightarrow> p d \<Longrightarrow> find p (docs @ [d]) = Some d"
  by (induction docs) (auto split: if_splits)

lemma map_update_first:
  "(\<And>d. g (f d) = g d) \<Longrightarrow> map g (update_first p f docs) = map g docs"
  by (induction docs) auto

lemma findOneAndUpdate_map:
  assumes "\<And>d t. g (touch t (f d)) = g d"
  shows "map g (snd (findOneAndUpdate p f t docs)) = map g docs"
  using assms by (cases "find p docs") (simp_all add: findOneAndUpdate_def map_update_first)

lemma findOneAndUpdate_found:
  assumes "find p docs = Some d"
  shows "\<exists>pre post. docs = pre @ d # post \<and> (\<forall>x \<in> set pre. \<not> p x) \<and> p d
     \<and> findOneAndUpdate p f t docs = (Some (touch t (f d)), pre @ touch t (f d) # post)"
proof -
  from find_split [OF assms] obtain pre post where
    h: "docs = pre @ d # post" "\<forall>x \<in> set pre. \<not> p x" "p d"
       "\<forall>f. update_first p f docs = pre @ f d # post" by blast
  from h(4) have "update_first p (touch t \<circ> f) docs = pre @ touch t (f d) # post" by simp
  with h assms show ?thesis
    by (intro exI [of _ pre] exI [of _ post]) (simp add: findOneAndUpdate_def)
qed

lemma findOneAndUpdate_none:
  "find p docs = None \<Longrightarrow> findOneAndUpdate p f t docs = (None, docs)"
  by (simp add: findOneAndUpdate_def)

lemma cast_path_frame:
  assumes "fst kv \<in> set allowedFields" and "cast_path pd kv = Inr f"
  shows "without_profile_fields (f d) = without_profile_fields d"
proof -
  obtain key v where kv: "kv = (key, v)"
    by (cases kv)
  from assms(1) kv have
    "key = ''firstName'' \<or> key = ''lastName'' \<or> key = ''phoneNumber''
       \<or> key = ''profilePicture'' \<or> key = ''preferences''"
    by (simp add: allowedFields_def)
  then show ?thesis
    using assms(2) kv
    by (elim disjE)
       (auto simp: cast_path_def cast_string_def without_profile_fields_def
         split: bval.splits sum.splits)
qed

lemma cast_update_frame:
  assumes "\<forall>kv \<in> set kvs. fst kv \<in> set allowedFields" and "cast_update pd kvs = Inr f"
  shows "without_profile_fields (f d) = without_profile_fields d"
  using assms
proof (induction kvs arbitrary: f d)
  case Nil
  then show ?case by auto
next
  case (Cons kv kvs)
  from Cons.prems(2) obtain f1 g where
    h: "cast_path pd kv = Inr f1" "cast_update pd kvs = Inr g" "f = g \<circ> f1"
    by (auto split: sum.splits)
  have "without_profile_fields (g (f1 d)) = without_profile_fields (f1 d)"
    using Cons.IH [OF _ h(2)] Cons.prems(1) by simp
  also have "\<dots> = without_profile_fields d"
    using cast_path_frame [OF _ h(1)] Cons.prems(1) by simp
  finally show ?case
    using h(3) by simp
qed

lemma updateFields_of_allowed:
  "\<forall>kv \<in> set (updateFields_of b). fst kv \<in> set allowedFields"
  by (auto simp: updateFields_of_def)

text \<open>What the allow-list keeps out: handed to \<^verbatim>\<open>$set\<close> unfiltered, a body with
  \<^verbatim>\<open>keycloakId\<close>, \<^verbatim>\<open>email\<close> or \<^verbatim>\<open>enabled\<close> would rewrite those paths.\<close>

lemma unfiltered_set_writes_other_paths:
  "\<exists>f. cast_update pd [(''keycloakId'', BStr ''u-2''), (''email'', BStr ''x@y.z''),
             (''enabled'', BStr ''false'')] = Inr f
       \<and> keycloakId (f sample_doc) = Some ''u-2'' \<and> email (f sample_doc) = Some ''x@y.z''
       \<and> \<not> enabled (f sample_doc)"
  by (simp add: cast_path_def cast_required_def cast_string_def castBoolean_def trim_def
      isJsSpace_def toLowerCase_def lower_char_def)

lemma without_profile_fields_touch [simp]:
  "without_profile_fields (touch t d) = without_profile_fields d"
  by (simp add: without_profile_fields_def touch_def)

lemma identity_key_without_profile_fields:
  "identity_key (without_profile_fields d) = identity_key d"
  by (simp add: identity_key_def without_profile_fields_def)

lemma without_profile_fields_key:
  assumes "without_profile_fields a = without_profile_fields b"
  shows "identity_key a = identity_key b"
proof -
  have "identity_key a = identity_key (without_profile_fields a)"
    by (simp add: identity_key_without_profile_fields)
  also have "\<dots> = identity_key (without_profile_fields b)"
    using assms by simp
  finally show ?thesis
    by (simp add: identity_key_without_profile_fields)
qed


lemma by_keycloakId_key:
  "identity_key a = identity_key b \<Longrightarrow> by_keycloakId k a = by_keycloakId k b"
  by (simp add: identity_key_def by_keycloakId_def)

lemma identity_key_sync_set [simp]:
  "identity_key (sync_set n ud d) = identity_key d"
  by (simp add: identity_key_def sync_set_def)

lemma identity_key_touch [simp]:
  "identity_key (touch t d) = identity_key d"
  by (simp add: identity_key_def touch_def)

lemma by_keycloakId_inserted:
  "by_keycloakId k (sync_set n ud (inserted_doc w k))"
  by (simp add: by_keycloakId_def sync_set_def inserted_doc_def)

lemma sync_cases:
  "(\<exists>d pre post. find (by_keycloakId (d_keycloakId ud)) docs = Some d
       \<and> docs = pre @ d # post
       \<and> (\<forall>x \<in> set pre. \<not> by_keycloakId (d_keycloakId ud) x)
       \<and> by_keycloakId (d_keycloakId ud) d
       \<and> syncUserFromKeycloak w ud docs =
           (touch (stamp w) (sync_set (now w) ud d),
            pre @ touch (stamp w) (sync_set (now w) ud d) # post))
   \<or> (find (by_keycloakId (d_keycloakId ud)) docs = None
       \<and> syncUserFromKeycloak w ud docs =
           (sync_set (now w) ud (inserted_doc w (d_keycloakId ud)),
            docs @ [sync_set (now w) ud (inserted_doc w (d_keycloakId ud))]))"
proof (cases "find (by_keycloakId (d_keycloakId ud)) docs")
  case None
  then show ?thesis
    by (simp add: syncUserFromKeycloak_def findOneAndUpsert_def findOneAndUpdate_none Let_def)
next
  case (Some d)
  from findOneAndUpdate_found [OF Some, of "sync_set (now w) ud" "stamp w"]
  obtain pre post where
    h: "docs = pre @ d # post" "\<forall>x \<in> set pre. \<not> by_keycloakId (d_keycloakId ud) x"
       "by_keycloakId (d_keycloakId ud) d"
       "findOneAndUpdate (by_keycloakId (d_keycloakId ud)) (sync_set (now w) ud) (stamp w) docs
          = (Some (touch (stamp w) (sync_set (now w) ud d)),
             pre @ touch (stamp w) (sync_set (now w) ud d) # post)"
    by blast
  have "syncUserFromKeycloak w ud docs =
           (touch (stamp w) (sync_set (now w) ud d),
            pre @ touch (stamp w) (sync_set (now w) ud d) # post)"
    using h(4) by (simp add: syncUserFromKeycloak_def findOneAndUpsert_def)
  with Some h show ?thesis by blast
qed

lemma updateUserProfile_frame:
  "map without_profile_fields (snd (updateUserProfile pd w k b docs))
     = map without_profile_fields docs"
proof (cases "cast_update pd (updateFields_of b)")
  case (Inl e)
  then show ?thesis by (simp add: updateUserProfile_def)
next
  case (Inr f)
  have fr: "without_profile_fields (f d) = without_profile_fields d" for d
    by (rule cast_update_frame [OF updateFields_of_allowed Inr])
  have m: "map without_profile_fields (snd (findOneAndUpdate (by_keycloakId k) f (stamp w) docs))
       = map without_profile_fields docs"
    by (rule findOneAndUpdate_map) (simp add: fr)
  show ?thesis
    using Inr m
    by (cases "findOneAndUpdate (by_keycloakId k) f (stamp w) docs")
       (auto simp: updateUserProfile_def split: option.splits)
qed

lemma map_key_of_frame:
  assumes "map without_profile_fields xs = map without_profile_fields ys"
  shows "map identity_key xs = map identity_key ys"
proof -
  have "map identity_key zs = map identity_key (map without_profile_fields zs)" for zs
    by (simp add: identity_key_without_profile_fields)
  then show ?thesis using assms by metis
qed

lemma deleteUser_key:
  "map identity_key (snd (deleteUser w k docs)) = map identity_key docs"
proof -
  have m: "map identity_key
      (snd (findOneAndUpdate (by_keycloakId k) (\<lambda>d. d\<lparr>enabled := False\<rparr>) (stamp w) docs))
       = map identity_key docs"
    by (rule findOneAndUpdate_map) (simp add: identity_key_def touch_def)
  show ?thesis
    using m
    by (cases "findOneAndUpdate (by_keycloakId k) (\<lambda>d. d\<lparr>enabled := False\<rparr>) (stamp w) docs")
       (auto simp: deleteUser_def split: option.splits)
qed

text \<open>
  C8. No operation of the service changes the identity key of a stored document: after a
  synchronisation the list of (\<^verbatim>\<open>_id\<close>, \<^verbatim>\<open>keycloakId\<close>) pairs starts with the list before it
  (at most one document is added, by the upsert), and after a profile update or a soft
  delete it is the same list. A synchronisation for subject id \<open>sid\<close> leaves every
  document as it was except documents whose \<^verbatim>\<open>keycloakId\<close> is \<open>sid\<close>.
\<close>

theorem identity_key_immutable:
  "prefix (map identity_key docs) (map identity_key (snd (syncUserFromKeycloak w ud docs)))
   \<and> length (snd (syncUserFromKeycloak w ud docs)) \<le> Suc (length docs)
   \<and> map identity_key (snd (updateUserProfile pd w k b docs)) = map identity_key docs
   \<and> map identity_key (snd (deleteUser w k docs)) = map identity_key docs
   \<and> (\<forall>sid. d_keycloakId ud = Some sid \<longrightarrow>
        (\<forall>i < length (snd (syncUserFromKeycloak w ud docs)).
           (i < length docs \<and> snd (syncUserFromKeycloak w ud docs) ! i = docs ! i)
           \<or> keycloakId (snd (syncUserFromKeycloak w ud docs) ! i) = Some sid))"
proof -
  have a: "prefix (map identity_key docs) (map identity_key (snd (syncUserFromKeycloak w ud docs)))
   \<and> length (snd (syncUserFromKeycloak w ud docs)) \<le> Suc (length docs)"
    using sync_cases [of ud docs w] by auto
  have b: "map identity_key (snd (updateUserProfile pd w k b docs)) = map identity_key docs"
    by (rule map_key_of_frame) (rule updateUserProfile_frame)
  have c: "map identity_key (snd (deleteUser w k docs)) = map identity_key docs"
    by (rule deleteUser_key)
  have d: "(i < length docs \<and> snd (syncUserFromKeycloak w ud docs) ! i = docs ! i)
           \<or> keycloakId (snd (syncUserFromKeycloak w ud docs) ! i) = Some sid"
    if sid: "d_keycloakId ud = Some sid" and i: "i < length (snd (syncUserFromKeycloak w ud docs))"
    for sid i
  proof -
    from sync_cases [of ud docs w] show ?thesis
    proof (elim disjE exE conjE)
      fix d pre post
      assume h: "docs = pre @ d # post" "by_keycloakId (d_keycloakId ud) d"
        "syncUserFromKeycloak w ud docs =
           (touch (stamp w) (sync_set (now w) ud d),
            pre @ touch (stamp w) (sync_set (now w) ud d) # post)"
      have kd: "keycloakId (touch (stamp w) (sync_set (now w) ud d)) = Some sid"
        using h(2) sid by (simp add: by_keycloakId_def touch_def sync_set_def)
      show ?thesis
        using h(1,3) kd i by (auto simp: nth_append nth_Cons split: nat.splits)
    next
      assume h: "syncUserFromKeycloak w ud docs =
           (sync_set (now w) ud (inserted_doc w (d_keycloakId ud)),
            docs @ [sync_set (now w) ud (inserted_doc w (d_keycloakId ud))])"
      have kd: "keycloakId (sync_set (now w) ud (inserted_doc w (d_keycloakId ud))) = Some sid"
        using sid by (simp add: sync_set_def inserted_doc_def)
      show ?thesis
        using h kd i by (auto simp: nth_append)
    qed
  qed
  show ?thesis
    using a b c d by blast
qed


lemma sample_sync_once:
  "snd (syncUserFromKeycloak (sample_io 5) sample_userData [sample_doc])
     = [sample_doc\<lparr>lastLogin := Some 5, updatedAt := 5\<rparr>]"
  by (simp add: syncUserFromKeycloak_def findOneAndUpsert_def findOneAndUpdate_def
      by_keycloakId_def sample_userData_def sample_doc_def sample_io_def touch_def sync_set_def
      set_path_def trim_def isJsSpace_def toLowerCase_def lower_char_def char_of_def bit_0)

theorem identity_key_immutable_witness:
  "keycloakId (snd (syncUserFromKeycloak (sample_io 5) sample_userData [sample_doc]) ! 0)
     = Some ''u-1''
   \<and> map identity_key (snd (deleteUser (sample_io 5) (Some ''u-1'') [sample_doc]))
     = [identity_key sample_doc]
   \<and> map identity_key
       (snd (updateUserProfile (\<lambda>s. None) (sample_io 5) (Some ''u-1'')
               [(''keycloakId'', BStr ''u-2''), (''firstName'', BStr ''Bo'')] [sample_doc]))
     = [identity_key sample_doc]"
proof -
  have sid: "d_keycloakId sample_userData = Some ''u-1''"
    by (simp add: sample_userData_def)
  have changed: "snd (syncUserFromKeycloak (sample_io 5) sample_userData [sample_doc]) ! 0
      \<noteq> [sample_doc] ! 0"
    unfolding sample_sync_once by (simp add: sample_doc_def)
  have len: "0 < length (snd (syncUserFromKeycloak (sample_io 5) sample_userData [sample_doc]))"
    by (simp add: sample_sync_once)
  show ?thesis
    using identity_key_immutable [where docs = "[sample_doc]" and w = "sample_io 5"
        and ud = sample_userData and k = "Some ''u-1''" and pd = "\<lambda>s. None"
        and b = "[(''keycloakId'', BStr ''u-2''), (''firstName'', BStr ''Bo'')]"] sid changed len
    by auto
qed

lemma authenticated_user:
  assumes "validateKeycloakToken e v req = Next req'"
  shows "\<exists>u. req_user req' = Some u \<and> body req' = body req \<and> param_id req' = param_id req
     \<and> query_page req' = query_page req \<and> query_limit req' = query_limit req"
  using validate_next_user [OF assms] by auto

lemma deleteUser_found:
  assumes "find (by_keycloakId k) docs = Some d"
  shows "\<exists>pre post. docs = pre @ d # post \<and> (\<forall>x \<in> set pre. \<not> by_keycloakId k x)
     \<and> deleteUser w k docs =
         (Inr (d\<lparr>enabled := False, updatedAt := stamp w\<rparr>),
          pre @ d\<lparr>enabled := False, updatedAt := stamp w\<rparr> # post)"
proof -
  from findOneAndUpdate_found [OF assms, of "\<lambda>d. d\<lparr>enabled := False\<rparr>" "stamp w"]
  obtain pre post where
    h: "docs = pre @ d # post" "\<forall>x \<in> set pre. \<not> by_keycloakId k x"
       "findOneAndUpdate (by_keycloakId k) (\<lambda>d. d\<lparr>enabled := False\<rparr>) (stamp w) docs
          = (Some (touch (stamp w) (d\<lparr>enabled := False\<rparr>)),
             pre @ touch (stamp w) (d\<lparr>enabled := False\<rparr>) # post)"
    by blast
  have "deleteUser w k docs =
         (Inr (d\<lparr>enabled := False, updatedAt := stamp w\<rparr>),
          pre @ d\<lparr>enabled := False, updatedAt := stamp w\<rparr> # post)"
    using h(3) by (simp add: deleteUser_def rethrow_def touch_def)
  with h show ?thesis by blast
qed

lemma first_match_unique:
  assumes "pre1 @ x # post1 = pre2 @ y # post2"
    and "\<forall>a \<in> set pre1. \<not> p a" and "\<forall>a \<in> set pre2. \<not> p a" and "p x" and "p y"
  shows "pre1 = pre2 \<and> x = y \<and> post1 = post2"
  using assms
proof (induction pre1 arbitrary: pre2)
  case Nil
  then show ?case by (cases pre2) auto
next
  case (Cons a pre1)
  then show ?case by (cases pre2) auto
qed

lemma deleteCurrentUser_found:
  assumes auth: "validateKeycloakToken e (verify l) req = Next req'"
    and u: "req_user req' = Some u"
    and found: "find (by_keycloakId (i_keycloakId u)) docs = Some d"
  shows "\<exists>pre post. docs = pre @ d # post
     \<and> (\<forall>x \<in> set pre. \<not> by_keycloakId (i_keycloakId u) x)
     \<and> handleRequest e l w DeleteMe req docs =
         (succeed ''User deleted successfully'' NoData,
          pre @ d\<lparr>enabled := False, updatedAt := stamp w\<rparr> # post)"
proof -
  from deleteUser_found [OF found, of w] obtain pre post where
    h: "docs = pre @ d # post" "\<forall>x \<in> set pre. \<not> by_keycloakId (i_keycloakId u) x"
       "deleteUser w (i_keycloakId u) docs =
         (Inr (d\<lparr>enabled := False, updatedAt := stamp w\<rparr>),
          pre @ d\<lparr>enabled := False, updatedAt := stamp w\<rparr> # post)"
    by blast
  have "handleRequest e l w DeleteMe req docs =
         (succeed ''User deleted successfully'' NoData,
          pre @ d\<lparr>enabled := False, updatedAt := stamp w\<rparr> # post)"
    using validate_next [OF auth] u h(3)
    by (simp add: handleRequest_def handlers_def deleteCurrentUser_def)
  with h show ?thesis by blast
qed

text \<open>
  C9, amended. An authenticated DELETE /api/users/me for a subject that has a record
  answers 200 and rewrites that record alone: \<^verbatim>\<open>enabled\<close> becomes false and
  \<^verbatim>\<open>updatedAt\<close> becomes the time of the write (the schema stamps every update); every
  other field of it, every other document, and the number and order of the documents stay.
\<close>

theorem soft_delete_frame:
  assumes auth: "validateKeycloakToken e (verify l) req = Next req'"
    and u: "req_user req' = Some u"
    and found: "find (by_keycloakId (i_keycloakId u)) docs = Some d"
  shows "\<exists>pre post. docs = pre @ d # post
     \<and> (\<forall>x \<in> set pre. \<not> by_keycloakId (i_keycloakId u) x)
     \<and> handleRequest e l w DeleteMe req docs =
         (succeed ''User deleted successfully'' NoData,
          pre @ d\<lparr>enabled := False, updatedAt := stamp w\<rparr> # post)"
  using deleteCurrentUser_found [OF auth u found] .

lemma sample_bearer:
  "bearer_token (sample_request (Some ''Bearer abc'')) = Inr ''abc''"
  by (simp add: bearer_token_def sample_request_def truthy_def startsWith_def trim_def
      isJsSpace_def)

lemma sample_issuer: "\<not> str_includes (issuer_url sample_env) ''undefined''"
  by (simp add: issuer_url_def sample_env_def tmpl_def startsWith_def)

lemma sample_authenticated:
  "validateKeycloakToken sample_env (verify (sample_libs accepting_verifier)) req
     = Next (req\<lparr>req_user := Some (user_info sample_claims (Some ''app''))\<rparr>)"
  if "bearer_token req = Inr token" for req token
  using that sample_issuer
  by (simp add: validateKeycloakToken_def verify_token_def sample_libs_def accepting_verifier_def
      attachUserInfo_def issuer_url_def sample_env_def)


text \<open>
  C9, as the claim states it, fails: the soft delete changes a second field. The record
  below was last written at time 1000; after a delete at time 2000 its \<^verbatim>\<open>updatedAt\<close>
  is 2000.
\<close>

theorem soft_delete_changes_updatedAt:
  "snd (handleRequest sample_env (sample_libs accepting_verifier) (sample_io 2000) DeleteMe
          (sample_request (Some ''Bearer abc'')) [sample_doc])
     = [sample_doc\<lparr>enabled := False, updatedAt := 2000\<rparr>]
   \<and> sample_doc\<lparr>enabled := False, updatedAt := 2000\<rparr> \<noteq> sample_doc\<lparr>enabled := False\<rparr>"
proof -
  have f: "find (by_keycloakId (Some ''u-1'')) [sample_doc] = Some sample_doc"
    by (simp add: by_keycloakId_def sample_doc_def)
  have d: "deleteUser (sample_io 2000) (Some ''u-1'') [sample_doc]
      = (Inr (sample_doc\<lparr>enabled := False, updatedAt := 2000\<rparr>),
         [sample_doc\<lparr>enabled := False, updatedAt := 2000\<rparr>])"
    using f
    by (simp add: deleteUser_def findOneAndUpdate_def rethrow_def touch_def sample_io_def
        by_keycloakId_def sample_doc_def)
  have k: "i_keycloakId (user_info sample_claims (Some ''app'')) = Some ''u-1''"
    by (simp add: user_info_def sample_claims_def)
  have "snd (handleRequest sample_env (sample_libs accepting_verifier) (sample_io 2000) DeleteMe
          (sample_request (Some ''Bearer abc'')) [sample_doc])
     = [sample_doc\<lparr>enabled := False, updatedAt := 2000\<rparr>]"
    using validate_next [OF sample_authenticated [OF sample_bearer]] d k
    by (simp add: handleRequest_def handlers_def deleteCurrentUser_def)
  moreover have "sample_doc\<lparr>enabled := False, updatedAt := 2000\<rparr> \<noteq> sample_doc\<lparr>enabled := False\<rparr>"
    by (simp add: sample_doc_def)
  ultimately show ?thesis by simp
qed

theorem soft_delete_frame_witness:
  "handleRequest sample_env (sample_libs accepting_verifier) (sample_io 2000) DeleteMe
          (sample_request (Some ''Bearer abc'')) [sample_doc]
     = (succeed ''User deleted successfully'' NoData,
        [sample_doc\<lparr>enabled := False, updatedAt := 2000\<rparr>])"
proof -
  have u: "req_user ((sample_request (Some ''Bearer abc''))
             \<lparr>req_user := Some (user_info sample_claims (Some ''app''))\<rparr>)
           = Some (user_info sample_claims (Some ''app''))"
    by simp
  have f: "find (by_keycloakId (i_keycloakId (user_info sample_claims (Some ''app''))))
             [sample_doc] = Some sample_doc"
    by (simp add: by_keycloakId_def sample_doc_def user_info_def sample_claims_def)
  have s: "stamp (sample_io 2000) = 2000"
    by (simp add: sample_io_def)
  from soft_delete_frame [OF sample_authenticated [OF sample_bearer] u f, of "sample_io 2000"]
  obtain pre post where
    h: "[sample_doc] = pre @ sample_doc # post"
       "handleRequest sample_env (sample_libs accepting_verifier) (sample_io 2000) DeleteMe
          (sample_request (Some ''Bearer abc'')) [sample_doc]
        = (succeed ''User deleted successfully'' NoData,
           pre @ sample_doc\<lparr>enabled := False, updatedAt := stamp (sample_io 2000)\<rparr> # post)"
    by blast
  from h(1) have "pre = [] \<and> post = []"
    by (cases pre) auto
  with h(2) s show ?thesis by simp
qed

lemma getCurrentUser_found:
  assumes auth: "validateKeycloakToken e (verify l) req = Next req'"
    and u: "req_user req' = Some u"
    and found: "find (by_keycloakId (i_keycloakId u)) docs = Some d"
  shows "\<exists>pre post. docs = pre @ d # post
     \<and> (\<forall>x \<in> set pre. \<not> by_keycloakId (i_keycloakId u) x)
     \<and> handleRequest e l w GetMe req docs =
         (succeed ''User profile retrieved successfully''
            (ProfileData (touch (stamp w) (sync_set (now w) (sync_data u) d)) (tokenInfo u)),
          pre @ touch (stamp w) (sync_set (now w) (sync_data u) d) # post)"
proof -
  have k: "d_keycloakId (sync_data u) = i_keycloakId u"
    by (simp add: sync_data_def)
  from sync_cases [of "sync_data u" docs w] found k obtain pre post where
    h: "docs = pre @ d # post" "\<forall>x \<in> set pre. \<not> by_keycloakId (i_keycloakId u) x"
       "syncUserFromKeycloak w (sync_data u) docs =
           (touch (stamp w) (sync_set (now w) (sync_data u) d),
            pre @ touch (stamp w) (sync_set (now w) (sync_data u) d) # post)"
    by auto
  have "handleRequest e l w GetMe req docs =
         (succeed ''User profile retrieved successfully''
            (ProfileData (touch (stamp w) (sync_set (now w) (sync_data u) d)) (tokenInfo u)),
          pre @ touch (stamp w) (sync_set (now w) (sync_data u) d) # post)"
    using validate_next [OF auth] u h(3)
    by (simp add: handleRequest_def handlers_def getCurrentUser_def)
  with h show ?thesis by blast
qed

lemma enabled_after_sync:
  "enabled (touch t (sync_set n (sync_data u) d))"
  by (simp add: touch_def sync_set_def sync_data_def)

text \<open>
  C10. An authenticated GET /api/users/me for a subject that has a record answers 200 and
  leaves that record enabled, whatever the flag was before, because the controller passes
  \<^verbatim>\<open>enabled: true\<close> into the upsert. In particular a soft delete followed by a profile
  fetch of the same subject leaves the record enabled.
\<close>

theorem profile_fetch_reenables:
  assumes auth: "validateKeycloakToken e (verify l) req = Next req'"
    and u: "req_user req' = Some u"
    and found: "find (by_keycloakId (i_keycloakId u)) docs = Some d"
  shows "(\<exists>pre post d'. docs = pre @ d # post
          \<and> (\<forall>x \<in> set pre. \<not> by_keycloakId (i_keycloakId u) x)
          \<and> snd (handleRequest e l w GetMe req docs) = pre @ d' # post
          \<and> enabled d' \<and> identity_key d' = identity_key d
          \<and> fst (handleRequest e l w GetMe req docs) =
               succeed ''User profile retrieved successfully'' (ProfileData d' (tokenInfo u)))
       \<and> (\<exists>pre post d'. docs = pre @ d # post
          \<and> snd (handleRequest e l w2 GetMe req (snd (handleRequest e l w DeleteMe req docs)))
               = pre @ d' # post
          \<and> enabled d' \<and> identity_key d' = identity_key d)"
proof -
  from getCurrentUser_found [OF auth u found, of w] obtain pre post where
    h: "docs = pre @ d # post" "\<forall>x \<in> set pre. \<not> by_keycloakId (i_keycloakId u) x"
       "handleRequest e l w GetMe req docs =
         (succeed ''User profile retrieved successfully''
            (ProfileData (touch (stamp w) (sync_set (now w) (sync_data u) d)) (tokenInfo u)),
          pre @ touch (stamp w) (sync_set (now w) (sync_data u) d) # post)"
    by blast
  have a: "\<exists>pre post d'. docs = pre @ d # post
          \<and> (\<forall>x \<in> set pre. \<not> by_keycloakId (i_keycloakId u) x)
          \<and> snd (handleRequest e l w GetMe req docs) = pre @ d' # post
          \<and> enabled d' \<and> identity_key d' = identity_key d
          \<and> fst (handleRequest e l w GetMe req docs) =
               succeed ''User profile retrieved successfully'' (ProfileData d' (tokenInfo u))"
    using h enabled_after_sync
    by (intro exI [of _ pre] exI [of _ post]
        exI [of _ "touch (stamp w) (sync_set (now w) (sync_data u) d)"]) simp
  from deleteCurrentUser_found [OF auth u found, of w] obtain pre1 post1 where
    g: "docs = pre1 @ d # post1" "\<forall>x \<in> set pre1. \<not> by_keycloakId (i_keycloakId u) x"
       "handleRequest e l w DeleteMe req docs =
         (succeed ''User deleted successfully'' NoData,
          pre1 @ d\<lparr>enabled := False, updatedAt := stamp w\<rparr> # post1)"
    by blast
  have pd: "by_keycloakId (i_keycloakId u) d"
    using found by (metis find_Some_iff)
  have "by_keycloakId (i_keycloakId u) (d\<lparr>enabled := False, updatedAt := stamp w\<rparr>)"
    using pd by (simp add: by_keycloakId_def)
  then have f1: "find (by_keycloakId (i_keycloakId u))
        (pre1 @ d\<lparr>enabled := False, updatedAt := stamp w\<rparr> # post1)
      = Some (d\<lparr>enabled := False, updatedAt := stamp w\<rparr>)"
    using g(2) by (rule find_append_first [rotated])
  from getCurrentUser_found [OF auth u f1, of w2] obtain pre2 post2 where
    k: "pre1 @ d\<lparr>enabled := False, updatedAt := stamp w\<rparr> # post1
          = pre2 @ d\<lparr>enabled := False, updatedAt := stamp w\<rparr> # post2"
       "\<forall>x \<in> set pre2. \<not> by_keycloakId (i_keycloakId u) x"
       "handleRequest e l w2 GetMe req (pre1 @ d\<lparr>enabled := False, updatedAt := stamp w\<rparr> # post1) =
         (succeed ''User profile retrieved successfully''
            (ProfileData (touch (stamp w2) (sync_set (now w2) (sync_data u)
                (d\<lparr>enabled := False, updatedAt := stamp w\<rparr>))) (tokenInfo u)),
          pre2 @ touch (stamp w2) (sync_set (now w2) (sync_data u)
                (d\<lparr>enabled := False, updatedAt := stamp w\<rparr>)) # post2)"
    by blast
  have pd2: "by_keycloakId (i_keycloakId u) (d\<lparr>enabled := False, updatedAt := stamp w\<rparr>)"
    using pd by (simp add: by_keycloakId_def)
  have same: "pre1 = pre2 \<and> post1 = post2"
    using first_match_unique [OF k(1) g(2) k(2) pd2 pd2] by simp
  have b: "\<exists>pre post d'. docs = pre @ d # post
          \<and> snd (handleRequest e l w2 GetMe req (snd (handleRequest e l w DeleteMe req docs)))
               = pre @ d' # post
          \<and> enabled d' \<and> identity_key d' = identity_key d"
  proof -
    let ?d' = "touch (stamp w2) (sync_set (now w2) (sync_data u)
                (d\<lparr>enabled := False, updatedAt := stamp w\<rparr>))"
    have r: "snd (handleRequest e l w2 GetMe req (snd (handleRequest e l w DeleteMe req docs)))
               = pre1 @ ?d' # post1"
      using g(3) k(3) same by simp
    have en: "enabled ?d'"
      by (rule enabled_after_sync)
    have key: "identity_key ?d' = identity_key d"
      by (simp add: identity_key_def touch_def sync_set_def)
    show ?thesis
      using g(1) r en key by blast
  qed
  show ?thesis using a b by blast
qed


theorem profile_fetch_reenables_witness:
  "\<exists>d'. snd (handleRequest sample_env (sample_libs accepting_verifier) (sample_io 3000) GetMe
          (sample_request (Some ''Bearer abc'')) [sample_doc\<lparr>enabled := False\<rparr>]) = [d']
        \<and> enabled d' \<and> keycloakId d' = Some ''u-1''"
proof -
  have u: "req_user ((sample_request (Some ''Bearer abc''))
             \<lparr>req_user := Some (user_info sample_claims (Some ''app''))\<rparr>)
           = Some (user_info sample_claims (Some ''app''))"
    by simp
  have f: "find (by_keycloakId (i_keycloakId (user_info sample_claims (Some ''app''))))
             [sample_doc\<lparr>enabled := False\<rparr>] = Some (sample_doc\<lparr>enabled := False\<rparr>)"
    by (simp add: by_keycloakId_def sample_doc_def user_info_def sample_claims_def)
  from profile_fetch_reenables [OF sample_authenticated [OF sample_bearer] u f,
      of "sample_io 3000" "sample_io 3000"]
  obtain pre post d' where
    h: "[sample_doc\<lparr>enabled := False\<rparr>] = pre @ sample_doc\<lparr>enabled := False\<rparr> # post"
       "snd (handleRequest sample_env (sample_libs accepting_verifier) (sample_io 3000) GetMe
          (sample_request (Some ''Bearer abc'')) [sample_doc\<lparr>enabled := False\<rparr>])
        = pre @ d' # post"
       "enabled d'" "identity_key d' = identity_key (sample_doc\<lparr>enabled := False\<rparr>)"
    by blast
  from h(1) have e: "pre = [] \<and> post = []"
    by (cases pre) auto
  have "keycloakId d' = Some ''u-1''"
    using h(4) by (simp add: identity_key_def sample_doc_def)
  with h(2,3) e show ?thesis by simp
qed

text \<open>
  A token with no \<^verbatim>\<open>sub\<close> claim: the filter asks for documents without a
  \<^verbatim>\<open>keycloakId\<close>. With only another subject's record in the collection, DELETE
  /api/users/me finds nothing, answers 500 ("Failed to delete user: User not found" is
  not the message the controller maps to 404) and leaves that record as it is; GET
  /api/users/me inserts a second record, without a \<^verbatim>\<open>keycloakId\<close>.
\<close>

lemma no_subject_authenticated:
  assumes "bearer_token req = Inr token"
  shows "validateKeycloakToken sample_env
           (\<lambda>token opts. Decoded (sample_claims\<lparr>sub := None\<rparr>)) req
         = Next (req\<lparr>req_user := Some (user_info (sample_claims\<lparr>sub := None\<rparr>) (Some ''app''))\<rparr>)"
  using assms sample_issuer
  by (simp add: validateKeycloakToken_def verify_token_def attachUserInfo_def issuer_url_def
      sample_env_def)

lemma delete_without_subject_is_500:
  "handleRequest sample_env
     (sample_libs (\<lambda>token opts. Decoded (sample_claims\<lparr>sub := None\<rparr>))) (sample_io 7) DeleteMe
     (sample_request (Some ''Bearer abc'')) [sample_doc]
   = (reject 500 ''Failed to delete user: User not found''
        (Some ''Failed to delete user: User not found''), [sample_doc])"
proof -
  have v: "verify (sample_libs (\<lambda>token opts. Decoded (sample_claims\<lparr>sub := None\<rparr>)))
      = (\<lambda>token opts. Decoded (sample_claims\<lparr>sub := None\<rparr>))"
    by (simp add: sample_libs_def)
  have k: "i_keycloakId (user_info (sample_claims\<lparr>sub := None\<rparr>) (Some ''app'')) = None"
    by (simp add: user_info_def)
  have d: "deleteUser (sample_io 7) None [sample_doc]
      = (Inl ''Failed to delete user: User not found'', [sample_doc])"
    by (simp add: deleteUser_def findOneAndUpdate_def by_keycloakId_def sample_doc_def
        rethrow_def)
  show ?thesis
    using validate_next [OF no_subject_authenticated [OF sample_bearer]] v k d
    by (simp add: handleRequest_def handlers_def deleteCurrentUser_def)
qed

lemma fetch_without_subject_inserts:
  "\<exists>d'. snd (handleRequest sample_env
     (sample_libs (\<lambda>token opts. Decoded (sample_claims\<lparr>sub := None\<rparr>))) (sample_io 7) GetMe
     (sample_request (Some ''Bearer abc'')) [sample_doc]) = [sample_doc, d']
       \<and> keycloakId d' = None"
proof -
  have v: "verify (sample_libs (\<lambda>token opts. Decoded (sample_claims\<lparr>sub := None\<rparr>)))
      = (\<lambda>token opts. Decoded (sample_claims\<lparr>sub := None\<rparr>))"
    by (simp add: sample_libs_def)
  have k: "d_keycloakId (sync_data (user_info (sample_claims\<lparr>sub := None\<rparr>) (Some ''app'')))
      = None"
    by (simp add: sync_data_def user_info_def)
  have f: "find (by_keycloakId None) [sample_doc] = None"
    by (simp add: by_keycloakId_def sample_doc_def)
  from sync_cases [of "sync_data (user_info (sample_claims\<lparr>sub := None\<rparr>) (Some ''app''))"
      "[sample_doc]" "sample_io 7"] k f
  have s: "syncUserFromKeycloak (sample_io 7)
        (sync_data (user_info (sample_claims\<lparr>sub := None\<rparr>) (Some ''app''))) [sample_doc]
      = (sync_set (now (sample_io 7))
           (sync_data (user_info (sample_claims\<lparr>sub := None\<rparr>) (Some ''app'')))
           (inserted_doc (sample_io 7) None),
         [sample_doc, sync_set (now (sample_io 7))
           (sync_data (user_info (sample_claims\<lparr>sub := None\<rparr>) (Some ''app'')))
           (inserted_doc (sample_io 7) None)])"
    by auto
  have n: "keycloakId (sync_set t ud (inserted_doc w None)) = None" for t ud w
    by (simp add: sync_set_def inserted_doc_def)
  show ?thesis
    using validate_next [OF no_subject_authenticated [OF sample_bearer]] v s n
    by (simp add: handleRequest_def handlers_def getCurrentUser_def)
qed

section \<open>Repeated synchronisation\<close>

lemma update_first_append:
  "(\<forall>y \<in> set pre. \<not> p y) \<Longrightarrow> p x \<Longrightarrow> update_first p f (pre @ x # post) = pre @ f x # post"
  by (induction pre) auto

lemma sync_at_first_match:
  assumes "\<forall>y \<in> set pre. \<not> by_keycloakId (d_keycloakId ud) y"
    and "by_keycloakId (d_keycloakId ud) x"
  shows "snd (syncUserFromKeycloak w ud (pre @ x # post))
           = pre @ touch (stamp w) (sync_set (now w) ud x) # post"
  using assms
  by (simp add: syncUserFromKeycloak_def findOneAndUpsert_def findOneAndUpdate_def
      find_append_first update_first_append)

lemma without_write_times_sync:
  "without_write_times (touch t (sync_set n ud d)) = without_write_times (sync_set 0 ud d)"
  by (simp add: without_write_times_def touch_def sync_set_def)

lemma sync_set_settles:
  "without_write_times (sync_set 0 ud (touch t (sync_set n ud d)))
     = without_write_times (touch t (sync_set n ud d))"
  "without_write_times (sync_set 0 ud (sync_set n ud d)) = without_write_times (sync_set n ud d)"
  by (simp_all add: without_write_times_def touch_def sync_set_def set_path_def
      split: option.splits)

lemma by_keycloakId_sync:
  "by_keycloakId k (touch t (sync_set n ud d)) = by_keycloakId k d"
  by (simp add: by_keycloakId_def touch_def sync_set_def)

lemma sync_all_settled:
  assumes "\<forall>y \<in> set pre. \<not> by_keycloakId (d_keycloakId ud) y"
    and "by_keycloakId (d_keycloakId ud) x"
    and "without_write_times (sync_set 0 ud x) = without_write_times x"
  shows "map without_write_times (sync_all ws ud (pre @ x # post))
           = map without_write_times (pre @ x # post)"
  using assms
proof (induction ws arbitrary: x)
  case Nil
  then show ?case by simp
next
  case (Cons w ws)
  let ?x1 = "touch (stamp w) (sync_set (now w) ud x)"
  have step: "snd (syncUserFromKeycloak w ud (pre @ x # post)) = pre @ ?x1 # post"
    by (rule sync_at_first_match [OF Cons.prems(1,2)])
  have p1: "by_keycloakId (d_keycloakId ud) ?x1"
    using Cons.prems(2) by (simp add: by_keycloakId_sync)
  have s1: "without_write_times (sync_set 0 ud ?x1) = without_write_times ?x1"
    by (rule sync_set_settles(1))
  have e1: "without_write_times ?x1 = without_write_times x"
    using Cons.prems(3) by (simp add: without_write_times_sync)
  have "map without_write_times (sync_all ws ud (pre @ ?x1 # post))
          = map without_write_times (pre @ ?x1 # post)"
    by (rule Cons.IH [OF Cons.prems(1) p1 s1])
  then show ?case
    using step e1 by simp
qed

text \<open>
  C6, amended. For every store, every identity and every \<open>N \<ge> 1\<close>: after \<open>N\<close> successive
  synchronisations with the same data the collection equals the collection after the
  first of them, except for \<^verbatim>\<open>lastLogin\<close> and \<^verbatim>\<open>updatedAt\<close> of the synchronised record.
\<close>

theorem sync_idempotent_up_to_write_times:
  "map without_write_times (sync_all (w # ws) ud docs)
     = map without_write_times (sync_all [w] ud docs)"
proof -
  from sync_cases [of ud docs w] show ?thesis
  proof (elim disjE exE conjE)
    fix d pre post
    assume h: "docs = pre @ d # post"
      "\<forall>x \<in> set pre. \<not> by_keycloakId (d_keycloakId ud) x"
      "by_keycloakId (d_keycloakId ud) d"
      "syncUserFromKeycloak w ud docs =
           (touch (stamp w) (sync_set (now w) ud d),
            pre @ touch (stamp w) (sync_set (now w) ud d) # post)"
    have p1: "by_keycloakId (d_keycloakId ud) (touch (stamp w) (sync_set (now w) ud d))"
      using h(3) by (simp add: by_keycloakId_sync)
    show ?thesis
      using sync_all_settled [OF h(2) p1 sync_set_settles(1), where ws = ws and post = post] h(4)
      by simp
  next
    assume h: "find (by_keycloakId (d_keycloakId ud)) docs = None"
      "syncUserFromKeycloak w ud docs =
           (sync_set (now w) ud (inserted_doc w (d_keycloakId ud)),
            docs @ [sync_set (now w) ud (inserted_doc w (d_keycloakId ud))])"
    have none: "\<forall>x \<in> set docs. \<not> by_keycloakId (d_keycloakId ud) x"
      using h(1) by (simp add: find_None_iff)
    show ?thesis
      using sync_all_settled [OF none by_keycloakId_inserted sync_set_settles(2),
          where ws = ws and post = "[]"] h(2)
      by simp
  qed
qed


lemma sample_first_sync:
  "snd (syncUserFromKeycloak (sample_io 5) sample_userData [])
     = [sample_doc\<lparr>lastLogin := Some 5, createdAt := 5, updatedAt := 5\<rparr>]"
  by (simp add: syncUserFromKeycloak_def findOneAndUpsert_def findOneAndUpdate_def
      sample_userData_def sample_doc_def sample_io_def sync_set_def inserted_doc_def Let_def
      set_path_def trim_def isJsSpace_def toLowerCase_def lower_char_def char_of_def bit_0)

lemma sample_second_sync:
  "snd (syncUserFromKeycloak (sample_io 9) sample_userData
          [sample_doc\<lparr>lastLogin := Some 5, createdAt := 5, updatedAt := 5\<rparr>])
     = [sample_doc\<lparr>lastLogin := Some 9, createdAt := 5, updatedAt := 9\<rparr>]"
  by (simp add: syncUserFromKeycloak_def findOneAndUpsert_def findOneAndUpdate_def
      by_keycloakId_def sample_userData_def sample_doc_def sample_io_def touch_def sync_set_def
      set_path_def trim_def isJsSpace_def toLowerCase_def lower_char_def char_of_def bit_0)

text \<open>
  C6, as the claim states it, fails: with only \<^verbatim>\<open>lastLogin\<close> set aside, the record after
  two synchronisations (at times 5 and 9) differs from the record after one, in
  \<^verbatim>\<open>updatedAt\<close>.
\<close>

theorem second_sync_changes_updatedAt:
  "map (\<lambda>d. d\<lparr>lastLogin := None\<rparr>) (sync_all [sample_io 5, sample_io 9] sample_userData [])
     \<noteq> map (\<lambda>d. d\<lparr>lastLogin := None\<rparr>) (sync_all [sample_io 5] sample_userData [])"
  unfolding sync_all.simps sample_first_sync sample_second_sync
  by (simp add: sample_doc_def)

theorem sync_idempotent_up_to_write_times_witness:
  "map without_write_times (sync_all [sample_io 5, sample_io 9] sample_userData [])
     = [sample_doc\<lparr>lastLogin := None, createdAt := 5, updatedAt := 0\<rparr>]"
  using sync_idempotent_up_to_write_times [of "sample_io 5" "[sample_io 9]" sample_userData "[]"]
  unfolding sync_all.simps sample_first_sync
  by (simp add: without_write_times_def)

section \<open>The profile update\<close>

lemma put_route:
  "handleRequest e l w PutMe req docs =
     (case validateKeycloakToken e (verify l) req of
        Respond r \<Rightarrow> (r, docs)
      | Next req' \<Rightarrow>
          if update_errors (isEmail l) (body req') \<noteq> [] then
            (\<lparr>status = 400, success = False, message = ''Validation failed'', error = None,
              payload = ValidationErrors (update_errors (isEmail l) (body req'))\<rparr>, docs)
          else
            (case req_user req' of
               None \<Rightarrow> (reject 500 no_user_message (Some no_user_message), docs)
             | Some u \<Rightarrow>
                 (case updateUserProfile (parseDate l) w (i_keycloakId u)
                         (map (sanitize (normalizeEmail l)) (body req')) docs of
                    (Inr updatedUser, docs') \<Rightarrow>
                      (succeed ''User profile updated successfully'' (UserData updatedUser), docs')
                  | (Inl m, docs') \<Rightarrow>
                      (reject (if m = ''User not found'' then 404 else 500) m (Some m), docs'))))"
  by (simp add: handleRequest_def handlers_def pure_mw_def validateUpdateUser_def
      handleValidationErrors_def updateCurrentUser_def
      split: outcome.splits option.splits prod.splits sum.splits)

lemma bearer_token_body [simp]: "bearer_token (req\<lparr>body := b\<rparr>) = bearer_token req"
  by (simp add: bearer_token_def)

lemma validate_body:
  "validateKeycloakToken e v (req\<lparr>body := b\<rparr>) =
     (case validateKeycloakToken e v req of
        Respond r \<Rightarrow> Respond r
      | Next q \<Rightarrow> Next (q\<lparr>body := b\<rparr>))"
  by (simp add: validateKeycloakToken_def verify_token_def attachUserInfo_def Let_def
      split: sum.splits verify_result.splits)

lemma map_of_filter_key:
  "P k \<Longrightarrow> map_of (filter (\<lambda>(key, v). P key) b) k = map_of b k"
  by (induction b) auto

lemma map_of_read_by_update:
  "k \<in> set allowedFields \<or> k = ''email'' \<or> k = ''username'' \<Longrightarrow>
   map_of (read_by_update b) k = map_of b k"
  unfolding read_by_update_def
  by (rule map_of_filter_key [where P = "\<lambda>key. key \<in> set allowedFields \<or> key = ''email'' \<or> key = ''username''"])

lemma update_errors_read:
  "update_errors f (read_by_update b) = update_errors f b"
  by (simp add: update_errors_def map_of_read_by_update allowedFields_def)

lemma sanitize_key [simp]: "fst (sanitize n kv) = fst kv"
  by (cases kv) (simp add: sanitize_def)

lemma updateFields_read:
  "updateFields_of (map (sanitize n) (read_by_update b)) = updateFields_of (map (sanitize n) b)"
proof (induction b)
  case Nil
  then show ?case by (simp add: read_by_update_def)
next
  case (Cons kv b)
  obtain k v where kv: "kv = (k, v)" by (cases kv)
  obtain k' v' where s: "sanitize n (k, v) = (k', v')" by (cases "sanitize n (k, v)")
  have "k' = k" using sanitize_key [of n "(k, v)"] s by simp
  with Cons kv s show ?case
    by (auto simp: read_by_update_def updateFields_of_def)
qed


lemma updateUserProfile_fields:
  "updateFields_of b1 = updateFields_of b2 \<Longrightarrow>
   updateUserProfile pd w k b1 docs = updateUserProfile pd w k b2 docs"
  by (simp add: updateUserProfile_def)

lemma put_reads_only:
  "handleRequest e l w PutMe (req\<lparr>body := b\<rparr>) docs
     = handleRequest e l w PutMe (req\<lparr>body := read_by_update b\<rparr>) docs"
proof (cases "validateKeycloakToken e (verify l) req")
  case (Respond r)
  then show ?thesis by (simp add: put_route validate_body)
next
  case (Next q)
  have u: "updateUserProfile pd w k (map (sanitize n) (read_by_update b)) docs
      = updateUserProfile pd w k (map (sanitize n) b) docs" for pd k n
    by (rule updateUserProfile_fields) (rule updateFields_read)
  show ?thesis
    using Next by (simp add: put_route validate_body update_errors_read u split: option.splits)
qed

lemma put_frame:
  "map without_profile_fields (snd (handleRequest e l w PutMe req docs))
     = map without_profile_fields docs"
proof (cases "validateKeycloakToken e (verify l) req")
  case (Respond r)
  then show ?thesis by (simp add: put_route)
next
  case (Next q)
  have f: "map without_profile_fields (snd (updateUserProfile pd w k b docs))
      = map without_profile_fields docs" for pd k b
    by (rule updateUserProfile_frame)
  show ?thesis
  proof (cases "req_user q")
    case None
    with Next show ?thesis by (simp add: put_route)
  next
    case (Some u)
    obtain res docs' where r: "updateUserProfile (parseDate l) w (i_keycloakId u)
        (map (sanitize (normalizeEmail l)) (body q)) docs = (res, docs')"
      by (cases "updateUserProfile (parseDate l) w (i_keycloakId u)
        (map (sanitize (normalizeEmail l)) (body q)) docs")
    have "map without_profile_fields docs' = map without_profile_fields docs"
      using f [of "parseDate l" "i_keycloakId u" "map (sanitize (normalizeEmail l)) (body q)"] r
      by simp
    with Next Some r show ?thesis
      by (cases res) (simp_all add: put_route)
  qed
qed

lemma put_rejected:
  assumes "validateKeycloakToken e (verify l) req = Next req'"
    and "update_errors (isEmail l) (body req) \<noteq> []"
  shows "handleRequest e l w PutMe req docs =
     (\<lparr>status = 400, success = False, message = ''Validation failed'', error = None,
       payload = ValidationErrors (update_errors (isEmail l) (body req))\<rparr>, docs)"
proof -
  have "body req' = body req"
    using authenticated_user [OF assms(1)] by blast
  with assms show ?thesis by (simp add: put_route)
qed

text \<open>
  C7, amended. Whatever a PUT /api/users/me submits, in every stored document only
  \<^verbatim>\<open>firstName\<close>, \<^verbatim>\<open>lastName\<close>, \<^verbatim>\<open>phoneNumber\<close>, \<^verbatim>\<open>profilePicture\<close>, \<^verbatim>\<open>preferences\<close> and the
  write timestamp \<^verbatim>\<open>updatedAt\<close> can differ afterwards. A member of the body outside the
  allow-list never reaches the store: the service gives the same result for two bodies
  with the same allow-listed members, and the route gives the same response and store for
  two bodies that agree on the allow-listed members and on \<^verbatim>\<open>email\<close> and \<^verbatim>\<open>username\<close>.
  Those two are outside the allow-list but are checked by the validator of the route: an
  authenticated request with a validation error is answered 400 and nothing is written.
\<close>

theorem update_profile_frame:
  "map without_profile_fields (snd (handleRequest e l w PutMe req docs))
     = map without_profile_fields docs
   \<and> (read_by_update b1 = read_by_update b2 \<longrightarrow>
        handleRequest e l w PutMe (req\<lparr>body := b1\<rparr>) docs
          = handleRequest e l w PutMe (req\<lparr>body := b2\<rparr>) docs)
   \<and> (updateFields_of b1 = updateFields_of b2 \<longrightarrow>
        updateUserProfile pd w k b1 docs = updateUserProfile pd w k b2 docs)
   \<and> (\<forall>req'. validateKeycloakToken e (verify l) req = Next req'
        \<and> update_errors (isEmail l) (body req) \<noteq> [] \<longrightarrow>
        status (fst (handleRequest e l w PutMe req docs)) = 400
        \<and> snd (handleRequest e l w PutMe req docs) = docs)"
proof -
  have a: "read_by_update b1 = read_by_update b2 \<longrightarrow>
        handleRequest e l w PutMe (req\<lparr>body := b1\<rparr>) docs
          = handleRequest e l w PutMe (req\<lparr>body := b2\<rparr>) docs"
    using put_reads_only [where e = e and l = l and w = w and req = req and b = b1 and docs = docs]
      put_reads_only [where e = e and l = l and w = w and req = req and b = b2 and docs = docs]
    by simp
  have b: "updateFields_of b1 = updateFields_of b2 \<longrightarrow>
        updateUserProfile pd w k b1 docs = updateUserProfile pd w k b2 docs"
    using updateUserProfile_fields by blast
  have c: "\<forall>req'. validateKeycloakToken e (verify l) req = Next req'
        \<and> update_errors (isEmail l) (body req) \<noteq> [] \<longrightarrow>
        status (fst (handleRequest e l w PutMe req docs)) = 400
        \<and> snd (handleRequest e l w PutMe req docs) = docs"
    using put_rejected [where e = e and l = l and req = req and w = w and docs = docs] by auto
  show ?thesis
    using put_frame [where e = e and l = l and w = w and req = req and docs = docs] a b c
    by blast
qed


lemma sample_username_errors:
  "update_errors (isEmail (sample_libs v)) [(''username'', BStr ''ab'')]
     = [\<lparr>v_field = ''username'', v_msg = ''Username must be between 3 and 30 characters'',
         v_value = BStr ''ab''\<rparr>]"
  by (simp add: update_errors_def check_def isLength_def matches_username_def toString_bval_def
      isWordChar_def)

text \<open>
  C7, as the claim states it, fails: \<^verbatim>\<open>username\<close> is outside the allow-list, yet a request
  that submits a username of two characters is rejected with 400 by the validator of the
  route instead of succeeding with the field ignored.
\<close>

theorem update_rejects_invalid_username:
  "handleRequest sample_env (sample_libs accepting_verifier) (sample_io 7) PutMe
     ((sample_request (Some ''Bearer abc''))\<lparr>body := [(''username'', BStr ''ab'')]\<rparr>) [sample_doc]
   = (\<lparr>status = 400, success = False, message = ''Validation failed'', error = None,
       payload = ValidationErrors
         [\<lparr>v_field = ''username'', v_msg = ''Username must be between 3 and 30 characters'',
           v_value = BStr ''ab''\<rparr>]\<rparr>, [sample_doc])"
proof -
  have tok: "bearer_token ((sample_request (Some ''Bearer abc''))
      \<lparr>body := [(''username'', BStr ''ab'')]\<rparr>) = Inr ''abc''"
    by (simp add: sample_bearer)
  show ?thesis
    using put_rejected [OF sample_authenticated [OF tok], of "sample_io 7" "[sample_doc]"]
    by (simp add: sample_username_errors)
qed

theorem update_profile_frame_witness:
  "handleRequest sample_env (sample_libs accepting_verifier) (sample_io 7) PutMe
     ((sample_request (Some ''Bearer abc''))
        \<lparr>body := [(''firstName'', BStr ''Bo''), (''keycloakId'', BStr ''u-2'')]\<rparr>) [sample_doc]
   = handleRequest sample_env (sample_libs accepting_verifier) (sample_io 7) PutMe
     ((sample_request (Some ''Bearer abc''))\<lparr>body := [(''firstName'', BStr ''Bo'')]\<rparr>) [sample_doc]
   \<and> status (fst (handleRequest sample_env (sample_libs accepting_verifier) (sample_io 7) PutMe
     ((sample_request (Some ''Bearer abc''))\<lparr>body := [(''username'', BStr ''ab'')]\<rparr>)
     [sample_doc])) = 400
   \<and> map without_profile_fields
        (snd (handleRequest sample_env (sample_libs accepting_verifier) (sample_io 7) PutMe
          ((sample_request (Some ''Bearer abc''))
             \<lparr>body := [(''firstName'', BStr ''Bo''), (''keycloakId'', BStr ''u-2'')]\<rparr>)
          [sample_doc]))
      = [without_profile_fields sample_doc]"
proof -
  have r: "read_by_update [(''firstName'', BStr ''Bo''), (''keycloakId'', BStr ''u-2'')]
      = read_by_update [(''firstName'', BStr ''Bo'')]"
    by (simp add: read_by_update_def allowedFields_def)
  have tok: "bearer_token ((sample_request (Some ''Bearer abc''))
      \<lparr>body := [(''username'', BStr ''ab'')]\<rparr>) = Inr ''abc''"
    by (simp add: sample_bearer)
  have errs: "update_errors (isEmail (sample_libs accepting_verifier))
      (body ((sample_request (Some ''Bearer abc''))\<lparr>body := [(''username'', BStr ''ab'')]\<rparr>)) \<noteq> []"
    by (simp add: sample_username_errors)
  have one: "handleRequest sample_env (sample_libs accepting_verifier) (sample_io 7) PutMe
     ((sample_request (Some ''Bearer abc''))
        \<lparr>body := [(''firstName'', BStr ''Bo''), (''keycloakId'', BStr ''u-2'')]\<rparr>) [sample_doc]
   = handleRequest sample_env (sample_libs accepting_verifier) (sample_io 7) PutMe
     ((sample_request (Some ''Bearer abc''))\<lparr>body := [(''firstName'', BStr ''Bo'')]\<rparr>) [sample_doc]"
    using update_profile_frame [where e = sample_env and l = "sample_libs accepting_verifier"
        and w = "sample_io 7" and req = "sample_request (Some ''Bearer abc'')"
        and docs = "[sample_doc]"
        and ?b1.0 = "[(''firstName'', BStr ''Bo''), (''keycloakId'', BStr ''u-2'')]"
        and ?b2.0 = "[(''firstName'', BStr ''Bo'')]"] r
    by blast
  have two: "status (fst (handleRequest sample_env (sample_libs accepting_verifier) (sample_io 7)
     PutMe ((sample_request (Some ''Bearer abc''))\<lparr>body := [(''username'', BStr ''ab'')]\<rparr>)
     [sample_doc])) = 400"
    using update_profile_frame [where e = sample_env and l = "sample_libs accepting_verifier"
        and w = "sample_io 7"
        and req = "(sample_request (Some ''Bearer abc''))\<lparr>body := [(''username'', BStr ''ab'')]\<rparr>"
        and docs = "[sample_doc]"]
      sample_authenticated [OF tok] errs
    by blast
  have three: "map without_profile_fields
        (snd (handleRequest sample_env (sample_libs accepting_verifier) (sample_io 7) PutMe
          ((sample_request (Some ''Bearer abc''))
             \<lparr>body := [(''firstName'', BStr ''Bo''), (''keycloakId'', BStr ''u-2'')]\<rparr>)
          [sample_doc]))
      = [without_profile_fields sample_doc]"
    using update_profile_frame [where e = sample_env and l = "sample_libs accepting_verifier"
        and w = "sample_io 7"
        and req = "(sample_request (Some ''Bearer abc''))
             \<lparr>body := [(''firstName'', BStr ''Bo''), (''keycloakId'', BStr ''u-2'')]\<rparr>"
        and docs = "[sample_doc]", THEN conjunct1]
    by simp
  show ?thesis
    using one two three by simp
qed

section \<open>Reading users\<close>

lemma getById_route:
  assumes "validateKeycloakToken e (verify l) req = Next req'"
  shows "handleRequest e l w GetById req docs =
     (case getUserById (param_id req) docs of
        Inr user \<Rightarrow> (succeed ''User retrieved successfully'' (UserData user), docs)
      | Inl m \<Rightarrow> (reject (if m = ''User not found'' then 404 else 500) m (Some m), docs))"
proof -
  have "param_id req' = param_id req"
    using authenticated_user [OF assms] by blast
  then show ?thesis
    using validate_next [OF assms]
    by (simp add: handleRequest_def handlers_def getUserById_controller_def split: sum.splits)
qed

lemma getUserById_invalid:
  "\<not> isValidObjectId userId \<Longrightarrow>
   getUserById userId docs = Inl ''Failed to get user: Invalid user ID format''"
  by (simp add: getUserById_def rethrow_def)

lemma getUserById_found:
  "isValidObjectId userId \<Longrightarrow> find (\<lambda>d. u_id d = toLowerCase userId) docs = Some d \<Longrightarrow>
   getUserById userId docs = Inr d"
  by (simp add: getUserById_def rethrow_def)

lemma getUserById_missing:
  "isValidObjectId userId \<Longrightarrow> find (\<lambda>d. u_id d = toLowerCase userId) docs = None \<Longrightarrow>
   getUserById userId docs = Inl ''Failed to get user: User not found''"
  by (simp add: getUserById_def rethrow_def)

lemma bearer_token_param_id [simp]: "bearer_token (req\<lparr>param_id := i\<rparr>) = bearer_token req"
  by (simp add: bearer_token_def)

lemma bearer_token_query_limit [simp]: "bearer_token (req\<lparr>query_limit := q\<rparr>) = bearer_token req"
  by (simp add: bearer_token_def)

text \<open>
  C2, as the claim states it, fails: an id that is not a valid record identifier is not
  answered 404. The service throws "Invalid user ID format", and the controller answers
  404 only for the message "User not found".
\<close>

theorem getById_invalid_id_is_500:
  "handleRequest sample_env (sample_libs accepting_verifier) (sample_io 7) GetById
     ((sample_request (Some ''Bearer abc''))\<lparr>param_id := ''abc''\<rparr>) [sample_doc]
   = (reject 500 ''Failed to get user: Invalid user ID format''
        (Some ''Failed to get user: Invalid user ID format''), [sample_doc])"
proof -
  have tok: "bearer_token ((sample_request (Some ''Bearer abc''))\<lparr>param_id := ''abc''\<rparr>) = Inr ''abc''"
    by (simp add: sample_bearer)
  have inv: "\<not> isValidObjectId ''abc''"
    by (simp add: isValidObjectId_def)
  show ?thesis
    using getById_route [OF sample_authenticated [OF tok], of "sample_io 7" "[sample_doc]"]
      getUserById_invalid [OF inv, of "[sample_doc]"]
    by simp
qed

text \<open>
  A valid id that no document has: the service throws "User not found", but its own
  \<^verbatim>\<open>catch\<close> rethrows that as "Failed to get user: User not found", which the
  controller's test for the exact message "User not found" does not match.
\<close>

lemma getById_missing_record_is_500:
  "handleRequest sample_env (sample_libs accepting_verifier) (sample_io 7) GetById
     ((sample_request (Some ''Bearer abc''))\<lparr>param_id := ''507f1f77bcf86cd799439011''\<rparr>) []
   = (reject 500 ''Failed to get user: User not found''
        (Some ''Failed to get user: User not found''), [])"
proof -
  have tok: "bearer_token ((sample_request (Some ''Bearer abc''))
      \<lparr>param_id := ''507f1f77bcf86cd799439011''\<rparr>) = Inr ''abc''"
    by (simp add: sample_bearer)
  have val: "isValidObjectId ''507f1f77bcf86cd799439011''"
    by (simp add: isValidObjectId_def isHexDigit_def)
  show ?thesis
    using getById_route [OF sample_authenticated [OF tok], of "sample_io 7" "[]"]
      getUserById_missing [OF val, of "[]"]
    by simp
qed

text \<open>
  C2, amended. For every authenticated GET /api/users/:id: when the id is a valid record
  identifier and a document has it, that document is returned in a success envelope with
  status 200; when the id is not a valid record identifier, the answer is an error
  envelope with status 500 and the message "Failed to get user: Invalid user ID format".
  The collection is never changed. (What a valid id that no document has is answered with
  is left out of this statement.)
\<close>

theorem getById_found_or_invalid:
  assumes auth: "validateKeycloakToken e (verify l) req = Next req'"
  shows "(\<forall>d. isValidObjectId (param_id req)
            \<and> find (\<lambda>d. u_id d = toLowerCase (param_id req)) docs = Some d \<longrightarrow>
            handleRequest e l w GetById req docs
              = (succeed ''User retrieved successfully'' (UserData d), docs)
            \<and> status (fst (handleRequest e l w GetById req docs)) = 200)
       \<and> (\<not> isValidObjectId (param_id req) \<longrightarrow>
            handleRequest e l w GetById req docs
              = (reject 500 ''Failed to get user: Invalid user ID format''
                   (Some ''Failed to get user: Invalid user ID format''), docs)
            \<and> status (fst (handleRequest e l w GetById req docs)) = 500
            \<and> \<not> success (fst (handleRequest e l w GetById req docs)))
       \<and> snd (handleRequest e l w GetById req docs) = docs"
proof -
  note r = getById_route [OF auth, of w docs]
  have a: "\<forall>d. isValidObjectId (param_id req)
            \<and> find (\<lambda>d. u_id d = toLowerCase (param_id req)) docs = Some d \<longrightarrow>
            handleRequest e l w GetById req docs
              = (succeed ''User retrieved successfully'' (UserData d), docs)
            \<and> status (fst (handleRequest e l w GetById req docs)) = 200"
    using r getUserById_found by (auto simp: succeed_def)
  have b: "\<not> isValidObjectId (param_id req) \<longrightarrow>
            handleRequest e l w GetById req docs
              = (reject 500 ''Failed to get user: Invalid user ID format''
                   (Some ''Failed to get user: Invalid user ID format''), docs)
            \<and> status (fst (handleRequest e l w GetById req docs)) = 500
            \<and> \<not> success (fst (handleRequest e l w GetById req docs))"
    using r getUserById_invalid [of "param_id req" docs] by (simp add: reject_def)
  have d: "snd (handleRequest e l w GetById req docs) = docs"
    using r by (simp split: sum.splits)
  show ?thesis
    using a b d by blast
qed

theorem getById_found_or_invalid_witness:
  "handleRequest sample_env (sample_libs accepting_verifier) (sample_io 7) GetById
     ((sample_request (Some ''Bearer abc''))\<lparr>param_id := ''507F1F77BCF86CD799439011''\<rparr>)
     [sample_doc]
   = (succeed ''User retrieved successfully'' (UserData sample_doc), [sample_doc])"
proof -
  have tok: "bearer_token ((sample_request (Some ''Bearer abc''))
      \<lparr>param_id := ''507F1F77BCF86CD799439011''\<rparr>) = Inr ''abc''"
    by (simp add: sample_bearer)
  have val: "isValidObjectId (param_id ((sample_request (Some ''Bearer abc''))
      \<lparr>param_id := ''507F1F77BCF86CD799439011''\<rparr>))"
    by (simp add: isValidObjectId_def isHexDigit_def)
  have f: "find (\<lambda>d. u_id d = toLowerCase (param_id ((sample_request (Some ''Bearer abc''))
      \<lparr>param_id := ''507F1F77BCF86CD799439011''\<rparr>))) [sample_doc] = Some sample_doc"
    by (simp add: sample_doc_def toLowerCase_def lower_char_def char_of_def bit_0)
  show ?thesis
    using getById_found_or_invalid [OF sample_authenticated [OF tok],
        where w = "sample_io 7" and docs = "[sample_doc]"] val f
    by blast
qed


lemma getAll_route:
  assumes "validateKeycloakToken e (verify l) req = Next req'"
  shows "handleRequest e l w GetAll req docs =
     (case getAllUsers (or_default (parseInt (query_page req)) 1)
             (or_default (parseInt (query_limit req)) 10) docs of
        Inr (users, pg) \<Rightarrow> (succeed ''Users retrieved successfully'' (UsersData users pg), docs)
      | Inl m \<Rightarrow> (reject 500 ''Failed to retrieve users'' (Some m), docs))"
proof -
  have "query_page req' = query_page req \<and> query_limit req' = query_limit req"
    using authenticated_user [OF assms] by blast
  then show ?thesis
    using validate_next [OF assms]
    by (simp add: handleRequest_def handlers_def getAllUsers_controller_def Let_def
        split: sum.splits prod.splits)
qed

lemma parseInt_absent: "parseInt None = None"
  by (simp add: parseInt_def)

lemma parseInt_101: "parseInt (Some ''101'') = Some 101"
  by (simp add: parseInt_def Let_def isJsSpace_def startsWith_def digit_of_def)

text \<open>
  The defaults of GET /api/users: without \<^verbatim>\<open>page\<close> and \<^verbatim>\<open>limit\<close> the controller asks for page
  1 with limit 10.
\<close>

lemma pagination_defaults:
  assumes "validateKeycloakToken e (verify l) req = Next req'"
    and "query_page req = None" and "query_limit req = None"
  shows "handleRequest e l w GetAll req docs =
     (succeed ''Users retrieved successfully''
        (UsersData (take 10 (rev (sort_key createdAt docs)))
           \<lparr>p_page = 1, p_limit = 10, p_total = length docs,
            p_pages = Some (- ((- int (length docs)) div 10))\<rparr>), docs)"
  using getAll_route [OF assms(1), of w docs] assms(2,3)
  by (simp add: parseInt_absent or_default_def getAllUsers_def rethrow_def)

text \<open>
  C4 at the input \<^verbatim>\<open>limit=101\<close>: the route has no cap. The controller passes 101 to the
  service, which returns up to 101 documents and reports \<^verbatim>\<open>limit: 101\<close>. (The validator
  file defines \<^verbatim>\<open>validateQueryParams\<close> with "Limit must be between 1 and 100", but no route
  mounts it, and it reads the body, not the query.)
\<close>

theorem limit_above_cap_is_honoured:
  "handleRequest sample_env (sample_libs accepting_verifier) w GetAll
     ((sample_request (Some ''Bearer abc''))\<lparr>query_limit := Some ''101''\<rparr>) docs
   = (succeed ''Users retrieved successfully''
        (UsersData (take 101 (rev (sort_key createdAt docs)))
           \<lparr>p_page = 1, p_limit = 101, p_total = length docs,
            p_pages = Some (- ((- int (length docs)) div 101))\<rparr>), docs)"
proof -
  have tok: "bearer_token ((sample_request (Some ''Bearer abc''))\<lparr>query_limit := Some ''101''\<rparr>)
      = Inr ''abc''"
    by (simp add: sample_bearer)
  have q: "query_page ((sample_request (Some ''Bearer abc''))\<lparr>query_limit := Some ''101''\<rparr>) = None"
    by (simp add: sample_request_def)
  show ?thesis
    using getAll_route [OF sample_authenticated [OF tok], of w docs] q
    by (simp add: parseInt_101 parseInt_absent or_default_def getAllUsers_def rethrow_def)
qed

end
